theory Spec2Isabelle
  imports Main "HOL-Library.Multiset" "HOL-Library.Product_Lexorder" "HOL-Library.List_Lexorder"
    "HOL-Library.Char_ord" "HOL-Library.Option_ord"
begin

section \<open>The persisted store (backend/database schema)\<close>

text \<open>
  The column \<open>wrapped_generations.status\<close> is a \<open>VARCHAR\<close> restricted by
  \<open>CHECK (status IN ('pending', 'processing', 'completed', 'failed', 'cancelled'))\<close>
  with \<open>DEFAULT 'pending'\<close>; the five admitted values are the constructors below.
\<close>

datatype gen_status = Pending | Processing | Completed | Failed | Cancelled

record generation =
  gen_id :: int
  gen_year :: int
  status :: gen_status
  total_users :: nat
  processed_users :: nat
  successful_users :: nat
  failed_users :: nat
  error_log :: "string option"

text \<open>
  Modelled from the spec: \<open>WrappedGenerationModel.create\<close> of
  \<open>backend/src/models/WrappedGeneration\<close>, which is not among the sources. The call
  \<open>create({ year, triggered_by, config })\<close> supplies no status and no counter, so the
  inserted row takes the schema's defaults: a generation starts as pending.
\<close>

definition new_generation :: "int \<Rightarrow> int \<Rightarrow> generation" where
  "new_generation gid yr =
     \<lparr>gen_id = gid, gen_year = yr, status = Pending, total_users = 0, processed_users = 0,
      successful_users = 0, failed_users = 0, error_log = None\<rparr>"

text \<open>
  The columns of \<open>users\<close> that the flows below read (interface \<open>User\<close> of
  \<open>backend/src/models/User.ts\<close>); \<open>u_id\<close> is the column \<open>id\<close>.
\<close>

record user =
  u_id :: int
  plex_user_id :: int
  username :: string
  email :: "string option"
  preferred_language :: string

text \<open>
  A row of \<open>user_wrapped_stats\<close>: its key columns, and in \<open>row_stats\<close> the stats object
  handed to \<open>UserWrappedStatsModel.create\<close>; \<open>s_id\<close> is the column \<open>id\<close>.
\<close>

record 's stats_row =
  s_id :: int
  user_id :: int
  generation_id :: int
  year :: int
  row_stats :: 's

text \<open>The fields of a row of \<open>access_tokens\<close> that its creator supplies.\<close>

record token_row =
  user_wrapped_stats_id :: int
  t_user_id :: int
  t_year :: int
  created_by :: string

text \<open>The lines \<open>generateWrappedStats\<close> hands to \<open>logger\<close>.\<close>

datatype log_line =
    Log_processing int
  | Log_processed int
  | Log_failed_user int string
  | Log_completed int nat nat
  | Log_generation_failed int string

text \<open>
  The state the background job works on: the generation row it was started for, the
  tables it writes and the logger. \<open>clock\<close> counts the awaited calls made so far and
  \<open>status_history\<close> is a history variable: the values the row's status column has held,
  oldest first.
\<close>

record 's world =
  clock :: nat
  gen :: generation
  status_history :: "gen_status list"
  users_tbl :: "user list"
  user_wrapped_stats :: "'s stats_row list"
  access_tokens :: "token_row list"
  logger :: "log_line list"

section \<open>External collaborators\<close>

text \<open>
  Every awaited call can reject. The environment says which call does: \<open>rejects e op t\<close>
  is the error message of the call of kind \<open>op\<close> issued at clock \<open>t\<close>, or \<open>None\<close> when
  it resolves. \<open>calculateUserStats\<close> is the engine behind
  \<open>calculator.calculateUserStats(user.plex_user_id, year)\<close>: it is given the Plex user id
  and the year only, and returns the stats or throws. \<open>on_conflict\<close> is what the
  statement behind \<open>UserWrappedStatsModel.create\<close> does with a row whose
  \<open>(user_id, year)\<close> is already stored: a plain \<open>INSERT\<close> is rejected by the
  constraint, an \<open>INSERT ... ON CONFLICT ... DO UPDATE\<close> replaces the stored row.
\<close>

datatype io_op = Generation_write | Users_read | Stats_write | Token_write | Calculator_init

datatype conflict_policy = Reject | Replace

record 's env =
  rejects :: "io_op \<Rightarrow> nat \<Rightarrow> string option"
  calculateUserStats :: "int \<Rightarrow> int \<Rightarrow> nat \<Rightarrow> string + 's"
  on_conflict :: conflict_policy

text \<open>An awaited call returns a value or throws an error with a message.\<close>

datatype 'a outcome = Returned 'a | Threw string

text \<open>One awaited call has been made.\<close>

definition tick :: "'s world \<Rightarrow> 's world" where
  "tick w = w\<lparr>clock := Suc (clock w)\<rparr>"

subsection \<open>wrapped\_generations\<close>

text \<open>
  The object of columns passed to \<open>WrappedGenerationModel.update(id, {...})\<close>. The
  timestamps \<open>started_at\<close> and \<open>completed_at\<close>, which are \<open>new Date()\<close>, are left out.
\<close>

record generation_update =
  set_status :: "gen_status option"
  set_total_users :: "nat option"
  set_successful_users :: "nat option"
  set_failed_users :: "nat option"
  set_error_log :: "string option"

text \<open>The object without any column.\<close>

definition no_update :: generation_update where
  "no_update = \<lparr>set_status = None, set_total_users = None, set_successful_users = None,
                 set_failed_users = None, set_error_log = None\<rparr>"

text \<open>
  Modelled from the spec: the effect of \<open>WrappedGenerationModel.update\<close> (not among the
  sources) on the row: the columns named in the object take the given values, the others
  stay.
\<close>

definition apply_update :: "generation_update \<Rightarrow> generation \<Rightarrow> generation" where
  "apply_update p g =
     g\<lparr>status := (case set_status p of None \<Rightarrow> status g | Some s \<Rightarrow> s),
       total_users := (case set_total_users p of None \<Rightarrow> total_users g | Some n \<Rightarrow> n),
       successful_users :=
         (case set_successful_users p of None \<Rightarrow> successful_users g | Some n \<Rightarrow> n),
       failed_users := (case set_failed_users p of None \<Rightarrow> failed_users g | Some n \<Rightarrow> n),
       error_log := (case set_error_log p of None \<Rightarrow> error_log g | Some m \<Rightarrow> Some m)\<rparr>"

text \<open>
  Modelled from the spec: \<open>WrappedGenerationModel.update\<close> (not among the sources) as an
  awaited call: it rejects and leaves the row as it is, or it resolves and the row is
  updated; a status written is appended to the history.
\<close>

definition WrappedGenerationModel_update ::
  "'s env \<Rightarrow> generation_update \<Rightarrow> 's world \<Rightarrow> unit outcome \<times> 's world" where
  "WrappedGenerationModel_update e p w =
     (case rejects e Generation_write (clock w) of
        Some m \<Rightarrow> (Threw m, tick w)
      | None \<Rightarrow>
          (Returned (),
           tick (w\<lparr>gen := apply_update p (gen w),
                   status_history :=
                     (case set_status p of
                        None \<Rightarrow> status_history w
                      | Some s \<Rightarrow> status_history w @ [s])\<rparr>)))"

text \<open>
  Modelled from the spec: \<open>WrappedGenerationModel.incrementProcessed(id, success)\<close> (not
  among the sources): the update of the processed, successful and failed counters that
  its name and its two call sites indicate. It does not touch the status column.
\<close>

definition incrementProcessed :: "'s env \<Rightarrow> bool \<Rightarrow> 's world \<Rightarrow> unit outcome \<times> 's world" where
  "incrementProcessed e success w =
     (case rejects e Generation_write (clock w) of
        Some m \<Rightarrow> (Threw m, tick w)
      | None \<Rightarrow>
          (Returned (),
           tick (w\<lparr>gen := (gen w)\<lparr>processed_users := Suc (processed_users (gen w)),
                     successful_users :=
                       (if success then Suc (successful_users (gen w))
                        else successful_users (gen w)),
                     failed_users :=
                       (if success then failed_users (gen w)
                        else Suc (failed_users (gen w)))\<rparr>\<rparr>)))"

subsection \<open>users\<close>

text \<open>
  \<open>UserModel.findById\<close>: \<open>SELECT * FROM users WHERE id = $1\<close>, one row or \<open>null\<close>.
\<close>

definition findById :: "user list \<Rightarrow> int \<Rightarrow> user option" where
  "findById us i = find (\<lambda>u. u_id u = i) us"

text \<open>
  \<open>userIds ? await Promise.all(userIds.map(id => UserModel.findById(id)))
            : await UserModel.findAll()\<close>, then \<open>users.filter(u => u !== null)\<close>.
  An array is truthy even when empty, so \<open>Some []\<close> selects nobody. The table is
  listed in the order of \<open>findAll\<close> (\<open>ORDER BY username ASC\<close>).
\<close>

definition requested_users :: "int list option \<Rightarrow> user list \<Rightarrow> user list" where
  "requested_users userIds tbl =
     (case userIds of
        None \<Rightarrow> tbl
      | Some ids \<Rightarrow> List.map_filter (findById tbl) ids)"

text \<open>The same as an awaited call, which can reject.\<close>

definition fetch_users :: "'s env \<Rightarrow> int list option \<Rightarrow> 's world \<Rightarrow> user list outcome \<times> 's world" where
  "fetch_users e userIds w =
     (case rejects e Users_read (clock w) of
        Some m \<Rightarrow> (Threw m, tick w)
      | None \<Rightarrow> (Returned (requested_users userIds (users_tbl w)), tick w))"

subsection \<open>user\_wrapped\_stats\<close>

text \<open>
  The table carries \<open>UNIQUE(user_id, year)\<close> and \<open>CHECK (year >= 2000 AND year <= 2100)\<close>.
  \<open>stats_insert\<close> is the store's side of a write: the row is checked against the two
  constraints before it is stored, whatever the caller computed.
\<close>

text \<open>The row has the given user and year.\<close>

definition same_user_year :: "int \<Rightarrow> int \<Rightarrow> 's stats_row \<Rightarrow> bool" where
  "same_user_year uid yr r \<longleftrightarrow> user_id r = uid \<and> year r = yr"

text \<open>The next value of the \<open>SERIAL\<close> primary key.\<close>

definition next_stats_id :: "'s stats_row list \<Rightarrow> int" where
  "next_stats_id rows = fold (\<lambda>r m. max m (s_id r)) rows 0 + 1"

text \<open>
  An insert into the table under a conflict policy: rejected by the check on the year,
  rejected or turned into a replacement when the (user, year) is stored already, and
  appended with a fresh id otherwise.
\<close>

definition stats_insert ::
  "conflict_policy \<Rightarrow> 's stats_row \<Rightarrow> 's stats_row list \<Rightarrow> string + ('s stats_row \<times> 's stats_row list)" where
  "stats_insert pol r rows =
     (if year r < 2000 \<or> 2100 < year r then Inl ''violates check constraint on year''
      else
        (case find (same_user_year (user_id r) (year r)) rows of
           None \<Rightarrow>
             (let r' = r\<lparr>s_id := next_stats_id rows\<rparr> in Inr (r', rows @ [r']))
         | Some old \<Rightarrow>
             (case pol of
                Reject \<Rightarrow> Inl ''duplicate key value violates unique constraint''
              | Replace \<Rightarrow>
                  (let r' = r\<lparr>s_id := s_id old\<rparr>
                   in Inr (r', map (\<lambda>x. if same_user_year (user_id r) (year r) x then r' else x) rows)))))"

text \<open>
  Modelled from the spec: \<open>UserWrappedStatsModel.create\<close> of
  \<open>backend/src/models/UserWrappedStats\<close>, which is not among the sources, as an awaited
  call: it rejects for a reason of its own, or it hands the row to the store, whose
  uniqueness constraint decides (specification, section 5).
\<close>

definition UserWrappedStatsModel_create ::
  "'s env \<Rightarrow> int \<Rightarrow> int \<Rightarrow> int \<Rightarrow> 's \<Rightarrow> 's world \<Rightarrow> 's stats_row outcome \<times> 's world" where
  "UserWrappedStatsModel_create e uid gid yr st w =
     (case rejects e Stats_write (clock w) of
        Some m \<Rightarrow> (Threw m, tick w)
      | None \<Rightarrow>
          (case stats_insert (on_conflict e)
                  \<lparr>s_id = 0, user_id = uid, generation_id = gid, year = yr, row_stats = st\<rparr>
                  (user_wrapped_stats w) of
             Inl m \<Rightarrow> (Threw m, tick w)
           | Inr (saved, rows) \<Rightarrow> (Returned saved, tick (w\<lparr>user_wrapped_stats := rows\<rparr>))))"

subsection \<open>access\_tokens\<close>

text \<open>
  Modelled from the spec: \<open>AccessTokenModel.create\<close> of
  \<open>backend/src/models/AccessToken\<close>, which is not among the sources, as an awaited
  call: it rejects, or it stores the token row.
\<close>

definition AccessTokenModel_create ::
  "'s env \<Rightarrow> token_row \<Rightarrow> 's world \<Rightarrow> unit outcome \<times> 's world" where
  "AccessTokenModel_create e t w =
     (case rejects e Token_write (clock w) of
        Some m \<Rightarrow> (Threw m, tick w)
      | None \<Rightarrow> (Returned (), tick (w\<lparr>access_tokens := access_tokens w @ [t]\<rparr>)))"

subsection \<open>The engine call\<close>

text \<open>
  \<open>await calculator.calculateUserStats(user.plex_user_id, year)\<close>: the engine is a
  parameter of the environment; the call returns its stats or throws its error.
\<close>

definition calculator_calculateUserStats ::
  "'s env \<Rightarrow> int \<Rightarrow> int \<Rightarrow> 's world \<Rightarrow> 's outcome \<times> 's world" where
  "calculator_calculateUserStats e plex yr w =
     (case calculateUserStats e plex yr (clock w) of
        Inl m \<Rightarrow> (Threw m, tick w)
      | Inr st \<Rightarrow> (Returned st, tick w))"

text \<open>\<open>new StatsCalculator()\<close>, which can throw.\<close>

definition new_StatsCalculator :: "'s env \<Rightarrow> 's world \<Rightarrow> unit outcome \<times> 's world" where
  "new_StatsCalculator e w =
     (case rejects e Calculator_init (clock w) of
        Some m \<Rightarrow> (Threw m, tick w)
      | None \<Rightarrow> (Returned (), tick w))"

text \<open>\<open>logger.info\<close> and \<open>logger.error\<close>.\<close>

definition logger_write :: "log_line \<Rightarrow> 's world \<Rightarrow> 's world" where
  "logger_write l w = w\<lparr>logger := logger w @ [l]\<rparr>"

section \<open>The generation orchestrator (backend/src/routes/admin.routes.ts)\<close>

text \<open>
  The body of the inner \<open>try\<close> of \<open>generateWrappedStats\<close> for one user. The result
  carries the local counter \<open>successful\<close>, which is incremented before the awaited
  \<open>incrementProcessed(generationId, true)\<close>.
\<close>

definition try_user ::
  "'s env \<Rightarrow> int \<Rightarrow> user \<Rightarrow> nat \<Rightarrow> 's world \<Rightarrow> nat \<times> unit outcome \<times> 's world" where
  "try_user e yr u successful w0 =
     (let w = logger_write (Log_processing (u_id u)) w0 in
      case calculator_calculateUserStats e (plex_user_id u) yr w of
        (Threw m, w1) \<Rightarrow> (successful, Threw m, w1)
      | (Returned st, w1) \<Rightarrow>
          (case UserWrappedStatsModel_create e (u_id u) (gen_id (gen w1)) yr st w1 of
             (Threw m, w2) \<Rightarrow> (successful, Threw m, w2)
           | (Returned savedStats, w2) \<Rightarrow>
               (case AccessTokenModel_create e
                       \<lparr>user_wrapped_stats_id = s_id savedStats, t_user_id = u_id u,
                        t_year = yr, created_by = ''generation''\<rparr> w2 of
                  (Threw m, w3) \<Rightarrow> (successful, Threw m, w3)
                | (Returned _, w3) \<Rightarrow>
                    (case incrementProcessed e True w3 of
                       (Threw m, w4) \<Rightarrow> (Suc successful, Threw m, w4)
                     | (Returned _, w4) \<Rightarrow>
                         (Suc successful, Returned (),
                          logger_write (Log_processed (u_id u)) w4)))))"

text \<open>
  \<open>for (const user of users) { try { ... } catch (error) { failed++; await
  incrementProcessed(generationId, false) } }\<close>. A rejection inside the \<open>catch\<close>
  leaves the loop.
\<close>

fun for_users ::
  "'s env \<Rightarrow> int \<Rightarrow> user list \<Rightarrow> nat \<Rightarrow> nat \<Rightarrow> 's world \<Rightarrow> (nat \<times> nat) outcome \<times> 's world" where
  "for_users e yr [] successful failed w = (Returned (successful, failed), w)"
| "for_users e yr (u # us) successful failed w =
     (case try_user e yr u successful w of
        (successful', Returned _, w') \<Rightarrow> for_users e yr us successful' failed w'
      | (successful', Threw m, w') \<Rightarrow>
          (case incrementProcessed e False (logger_write (Log_failed_user (u_id u) m) w') of
             (Threw m', w'') \<Rightarrow> (Threw m', w'')
           | (Returned _, w'') \<Rightarrow> for_users e yr us successful' (Suc failed) w''))"

text \<open>The outer \<open>try\<close> block.\<close>

definition generate_try ::
  "'s env \<Rightarrow> int \<Rightarrow> int list option \<Rightarrow> 's world \<Rightarrow> unit outcome \<times> 's world" where
  "generate_try e yr userIds w =
     (case WrappedGenerationModel_update e (no_update\<lparr>set_status := Some Processing\<rparr>) w of
        (Threw m, w1) \<Rightarrow> (Threw m, w1)
      | (Returned _, w1) \<Rightarrow>
          (case fetch_users e userIds w1 of
             (Threw m, w2) \<Rightarrow> (Threw m, w2)
           | (Returned users, w2) \<Rightarrow>
               (case WrappedGenerationModel_update e
                       (no_update\<lparr>set_total_users := Some (length users)\<rparr>) w2 of
                  (Threw m, w3) \<Rightarrow> (Threw m, w3)
                | (Returned _, w3) \<Rightarrow>
                    (case new_StatsCalculator e w3 of
                       (Threw m, w4) \<Rightarrow> (Threw m, w4)
                     | (Returned _, w4) \<Rightarrow>
                         (case for_users e yr users 0 0 w4 of
                            (Threw m, w5) \<Rightarrow> (Threw m, w5)
                          | (Returned (successful, failed), w5) \<Rightarrow>
                              (case WrappedGenerationModel_update e
                                      (no_update\<lparr>set_status := Some Completed,
                                                 set_successful_users := Some successful,
                                                 set_failed_users := Some failed\<rparr>) w5 of
                                 (Threw m, w6) \<Rightarrow> (Threw m, w6)
                               | (Returned _, w6) \<Rightarrow>
                                   (Returned (),
                                    logger_write
                                      (Log_completed (gen_id (gen w6)) successful failed) w6)))))))"

text \<open>
  \<open>async function generateWrappedStats(generationId, year, userIds?)\<close>: the outer
  \<open>try\<close> and its \<open>catch\<close>, which writes status \<open>failed\<close> and the error message. When
  that write rejects too, the promise of the job rejects (\<open>Threw\<close>).
\<close>

definition generateWrappedStats ::
  "'s env \<Rightarrow> int \<Rightarrow> int list option \<Rightarrow> 's world \<Rightarrow> unit outcome \<times> 's world" where
  "generateWrappedStats e yr userIds w =
     (case generate_try e yr userIds w of
        (Returned _, w') \<Rightarrow> (Returned (), w')
      | (Threw m, w') \<Rightarrow>
          WrappedGenerationModel_update e
            (no_update\<lparr>set_status := Some Failed, set_error_log := Some m\<rparr>)
            (logger_write (Log_generation_failed (gen_id (gen w')) m) w'))"

text \<open>
  The world right after \<open>POST /api/admin/generate\<close> has created the generation row and
  before the background job runs.
\<close>

definition started_world ::
  "int \<Rightarrow> int \<Rightarrow> user list \<Rightarrow> 's stats_row list \<Rightarrow> token_row list \<Rightarrow> 's world" where
  "started_world gid yr us rows toks =
     \<lparr>clock = 0, gen = new_generation gid yr, status_history = [Pending], users_tbl = us,
      user_wrapped_stats = rows, access_tokens = toks, logger = []\<rparr>"

subsection \<open>Reading the orchestrator's results\<close>

text \<open>
  The per-user verdicts of a run, read off the logger in order: \<open>(id, True)\<close> for
  "Successfully processed user id", \<open>(id, False)\<close> for "Failed to process user id".
\<close>

fun user_outcomes :: "log_line list \<Rightarrow> (int \<times> bool) list" where
  "user_outcomes [] = []"
| "user_outcomes (Log_processed i # ls) = (i, True) # user_outcomes ls"
| "user_outcomes (Log_failed_user i m # ls) = (i, False) # user_outcomes ls"
| "user_outcomes (l # ls) = user_outcomes ls"





text \<open>The two status histories of the documented lifecycle.\<close>

definition lifecycle_histories :: "gen_status list set" where
  "lifecycle_histories = {[Pending, Processing, Completed], [Pending, Processing, Failed]}"

text \<open>\<open>UNIQUE(user_id, year)\<close> as a predicate on the table.\<close>

definition user_year_unique :: "'s stats_row list \<Rightarrow> bool" where
  "user_year_unique rows \<longleftrightarrow> distinct (map (\<lambda>r. (user_id r, year r)) rows)"

subsection \<open>Concrete runs\<close>

definition three_users :: "user list" where
  "three_users =
     [\<lparr>u_id = 1, plex_user_id = 501, username = ''ana'', email = Some ''ana@example.org'',
       preferred_language = ''en''\<rparr>,
      \<lparr>u_id = 2, plex_user_id = 502, username = ''bor'', email = None,
       preferred_language = ''sl''\<rparr>,
      \<lparr>u_id = 3, plex_user_id = 503, username = ''cid'', email = Some ''cid@example.org'',
       preferred_language = ''de''\<rparr>]"

text \<open>No database call rejects; the engine throws for Plex user 502 only.\<close>

definition calm_env :: "unit env" where
  "calm_env =
     \<lparr>rejects = (\<lambda>op t. None),
      calculateUserStats =
        (\<lambda>plex yr t. if plex = 502 then Inl ''history fetch failed'' else Inr ()),
      on_conflict = Reject\<rparr>"

text \<open>
  The first awaited call of the job, the update that sets status \<open>processing\<close>, rejects;
  every later call resolves.
\<close>

definition write_failure_env :: "unit env" where
  "write_failure_env =
     \<lparr>rejects =
        (\<lambda>op t. if op = Generation_write \<and> t = 0 then Some ''connection terminated'' else None),
      calculateUserStats = (\<lambda>plex yr t. Inr ()),
      on_conflict = Reject\<rparr>"

text \<open>A stats row stored by an earlier generation for user 1 and 2025.\<close>

definition earlier_row :: "unit stats_row" where
  "earlier_row = \<lparr>s_id = 1, user_id = 1, generation_id = 3, year = 2025, row_stats = ()\<rparr>"

definition later_row :: "unit stats_row" where
  "later_row = \<lparr>s_id = 0, user_id = 1, generation_id = 7, year = 2025, row_stats = ()\<rparr>"



text \<open>
  The engine returns for every user and the write to the generation record issued at
  clock 7, which is the \<open>incrementProcessed(generationId, true)\<close> for the first user,
  rejects; every other call resolves.
\<close>

definition counter_failure_env :: "unit env" where
  "counter_failure_env =
     \<lparr>rejects =
        (\<lambda>op t. if op = Generation_write \<and> t = 7 then Some ''connection terminated'' else None),
      calculateUserStats = (\<lambda>plex yr t. Inr ()),
      on_conflict = Reject\<rparr>"

section \<open>Backend translation service (backend/src/services/i18n.service.ts)\<close>

text \<open>
  Values a translation table can hold and the navigation can meet. A table is the result
  of \<open>JSON.parse\<close>, so it is built from \<open>Null\<close>, booleans, numbers, strings, arrays and
  objects with their own properties (each name listed once); \<open>Undefined\<close> is what
  reading an absent property gives. Numbers are only ever tested for being zero, so
  integers stand for them.
\<close>

datatype jsval =
    Undefined
  | Null
  | Bool bool
  | Num int
  | Str string
  | Arr "jsval list"
  | Obj "(string \<times> jsval) list"

text \<open>
  What JavaScript code throws: a \<open>TypeError\<close> of the language itself, or whatever a
  method or getter supplied by the caller throws; each with its message.
\<close>

datatype js_error = TypeError string | Thrown string

fun truthy :: "jsval \<Rightarrow> bool" where
  "truthy Undefined = False"
| "truthy Null = False"
| "truthy (Bool b) = b"
| "truthy (Num n) = (n \<noteq> 0)"
| "truthy (Str s) = (s \<noteq> [])"
| "truthy (Arr xs) = True"
| "truthy (Obj ps) = True"

fun js_typeof :: "jsval \<Rightarrow> string" where
  "js_typeof Undefined = ''undefined''"
| "js_typeof Null = ''object''"
| "js_typeof (Bool b) = ''boolean''"
| "js_typeof (Num n) = ''number''"
| "js_typeof (Str s) = ''string''"
| "js_typeof (Arr xs) = ''object''"
| "js_typeof (Obj ps) = ''object''"

text \<open>
  Array indices as property names: the canonical decimal numerals (\<open>"0"\<close>, \<open>"7"\<close>,
  \<open>"12"\<close>, never \<open>"01"\<close> or the empty string).
\<close>

definition digit_value :: "char \<Rightarrow> nat option" where
  "digit_value =
     map_of [(CHR ''0'', 0), (CHR ''1'', 1), (CHR ''2'', 2), (CHR ''3'', 3), (CHR ''4'', 4),
             (CHR ''5'', 5), (CHR ''6'', 6), (CHR ''7'', 7), (CHR ''8'', 8), (CHR ''9'', 9)]"

fun digits_value :: "nat \<Rightarrow> string \<Rightarrow> nat option" where
  "digits_value acc [] = Some acc"
| "digits_value acc (c # cs) =
     (case digit_value c of None \<Rightarrow> None | Some d \<Rightarrow> digits_value (10 * acc + d) cs)"

definition array_index :: "string \<Rightarrow> nat option" where
  "array_index k =
     (if k = [] \<or> (hd k = CHR ''0'' \<and> tl k \<noteq> []) then None else digits_value 0 k)"

text \<open>
  The operator \<open>k in value\<close> throws a \<open>TypeError\<close> when its right operand is not an
  object; reading a property of \<open>undefined\<close> or \<open>null\<close> throws as well. Properties
  inherited from \<open>Object.prototype\<close> and \<open>Array.prototype\<close> are left out: they are
  functions or the prototype object itself, none of them is a string and none of them
  leads to one, so \<open>translate\<close> answers a path through them with the key, exactly as it
  answers a path through an absent property.
\<close>

fun js_in :: "string \<Rightarrow> jsval \<Rightarrow> js_error + bool" where
  "js_in k (Obj ps) = Inr (map_of ps k \<noteq> None)"
| "js_in k (Arr xs) =
     Inr (k = ''length'' \<or> (case array_index k of None \<Rightarrow> False | Some i \<Rightarrow> i < length xs))"
| "js_in k v = Inl (TypeError ''Cannot use 'in' operator to search for a key in a non-object'')"

fun js_get :: "jsval \<Rightarrow> string \<Rightarrow> js_error + jsval" where
  "js_get (Obj ps) k = Inr (case map_of ps k of None \<Rightarrow> Undefined | Some v \<Rightarrow> v)"
| "js_get (Arr xs) k =
     Inr (if k = ''length'' then Num (int (length xs))
          else (case array_index k of
                  None \<Rightarrow> Undefined
                | Some i \<Rightarrow> if i < length xs then xs ! i else Undefined))"
| "js_get (Str s) k =
     Inr (if k = ''length'' then Num (int (length s))
          else (case array_index k of
                  None \<Rightarrow> Undefined
                | Some i \<Rightarrow> if i < length s then Str [s ! i] else Undefined))"
| "js_get Undefined k = Inl (TypeError ''Cannot read properties of undefined'')"
| "js_get Null k = Inl (TypeError ''Cannot read properties of null'')"
| "js_get v k = Inr Undefined"

text \<open>\<open>key.split('.')\<close>: never the empty list; \<open>"a..b"\<close> gives \<open>["a", "", "b"]\<close>.\<close>

fun split_on :: "char \<Rightarrow> string \<Rightarrow> string list" where
  "split_on d [] = [[]]"
| "split_on d (c # cs) =
     (if c = d then [] # split_on d cs
      else (case split_on d cs of
              [] \<Rightarrow> [[c]]
            | w # ws \<Rightarrow> (c # w) # ws))"

definition defaultLocale :: string where
  "defaultLocale = ''en''"

definition supportedLocales :: "string list" where
  "supportedLocales = [''en'', ''es'', ''fr'', ''de'', ''sl'']"

text \<open>
  The parameter object is a \<open>Record<string, any>\<close>, and \<open>interpolate\<close> does two
  things with the property named by a placeholder: it compares \<open>params[key]\<close> with
  \<open>undefined\<close>, and it passes it to \<open>String(...)\<close>. A property is therefore one of:
  \<^item> \<open>Absent\<close>: reading it gives \<open>undefined\<close>;
  \<^item> \<open>Converts s\<close>: a value \<open>v\<close> with \<open>String(v) = s\<close>; every string, number,
    boolean, \<open>null\<close>, array of such values and every object with a working \<open>toString\<close>
    is of this kind;
  \<^item> \<open>Unconvertible err\<close>: a value for which \<open>String(v)\<close> throws, such as
    \<open>Object.create(null)\<close>, which has neither \<open>toString\<close> nor \<open>valueOf\<close> (a
    \<open>TypeError\<close>), or an object whose \<open>toString\<close> throws;
  \<^item> \<open>Unreadable err\<close>: a property whose read throws (a getter).
  The parameter object is the function that gives this for every property name.
\<close>

datatype param_value = Absent | Converts string | Unconvertible js_error | Unreadable js_error

text \<open>
  The callback \<open>(match, key) => params[key] !== undefined ? String(params[key]) : match\<close>,
  applied to a match and the property its key names.
\<close>

definition replacement :: "string \<Rightarrow> param_value \<Rightarrow> js_error + string" where
  "replacement match v =
     (case v of
        Absent \<Rightarrow> Inr match
      | Converts s \<Rightarrow> Inr s
      | Unconvertible err \<Rightarrow> Inl err
      | Unreadable err \<Rightarrow> Inl err)"

text \<open>
  \<open>template.replace(/\{(\w+)\}/g, callback)\<close>. The scan is left to right, matches do
  not overlap, a replacement is not scanned again, and an exception thrown by the
  callback at a match leaves \<open>replace\<close> at once.
\<close>

definition is_word_char :: "char \<Rightarrow> bool" where
  "is_word_char c \<longleftrightarrow>
     c \<in> set ''abcdefghijklmnopqrstuvwxyzABCDEFGHIJKLMNOPQRSTUVWXYZ0123456789_''"

function interpolate :: "string \<Rightarrow> (string \<Rightarrow> param_value) \<Rightarrow> js_error + string" where
  "interpolate [] params = Inr []"
| "interpolate (c # cs) params =
     (let word = takeWhile is_word_char cs; rest = dropWhile is_word_char cs in
      if c = CHR ''{'' \<and> word \<noteq> [] \<and> rest \<noteq> [] \<and> hd rest = CHR ''}''
      then (case replacement (c # word @ [CHR ''}'']) (params word) of
              Inl err \<Rightarrow> Inl err
            | Inr v \<Rightarrow>
                (case interpolate (tl rest) params of
                   Inl err \<Rightarrow> Inl err
                 | Inr after \<Rightarrow> Inr (v @ after)))
      else (case interpolate cs params of
              Inl err \<Rightarrow> Inl err
            | Inr after \<Rightarrow> Inr (c # after)))"
  by pat_completeness auto
termination
proof (relation "measure (\<lambda>(s, p). length s)")
  show "wf (measure (\<lambda>(s, p). length s))" by simp
next
  fix c :: char and cs :: string and params :: "string \<Rightarrow> param_value" and x xa
  assume "xa = dropWhile is_word_char cs"
  moreover have "length (dropWhile is_word_char cs) \<le> length cs"
    by (rule length_dropWhile_le)
  ultimately have "length (tl xa) \<le> length cs"
    by simp
  then show "((tl xa, params), c # cs, params) \<in> measure (\<lambda>(s, p). length s)" by simp
next
  fix c :: char and cs :: string and params :: "string \<Rightarrow> param_value" and x xa
  show "((cs, params), c # cs, params) \<in> measure (\<lambda>(s, p). length s)" by simp
qed

text \<open>
  The loop \<open>for (const k of keys) { if (value && typeof value === 'object' && k in
  value) value = value[k]; else return key; }\<close>. \<open>Inr None\<close> is the early
  \<open>return key\<close>, \<open>Inl\<close> an exception.
\<close>

fun navigate :: "string list \<Rightarrow> jsval \<Rightarrow> js_error + jsval option" where
  "navigate [] value = Inr (Some value)"
| "navigate (k # ks) value =
     (if truthy value \<and> js_typeof value = ''object''
      then (case js_in k value of
              Inl err \<Rightarrow> Inl err
            | Inr found \<Rightarrow>
                if found
                then (case js_get value k of Inl err \<Rightarrow> Inl err | Inr v \<Rightarrow> navigate ks v)
                else Inr None)
      else Inr None)"

text \<open>
  \<open>this.translations.get(locale) || this.translations.get(defaultLocale)\<close>, where the
  map holds the parsed file of every locale that was loaded.
\<close>

definition selected_table :: "(string \<Rightarrow> jsval option) \<Rightarrow> string \<Rightarrow> jsval" where
  "selected_table translations locale =
     (let first = (case translations locale of None \<Rightarrow> Undefined | Some v \<Rightarrow> v) in
      if truthy first then first
      else (case translations defaultLocale of None \<Rightarrow> Undefined | Some v \<Rightarrow> v))"

text \<open>
  \<open>translate(key, locale = defaultLocale, params?)\<close>: an omitted locale is \<open>None\<close>, an
  omitted parameter object is \<open>None\<close>.
\<close>

definition translate ::
  "(string \<Rightarrow> jsval option) \<Rightarrow> string \<Rightarrow> string option \<Rightarrow> (string \<Rightarrow> param_value) option
     \<Rightarrow> js_error + string" where
  "translate translations key locale params =
     (let translations' =
            selected_table translations (case locale of None \<Rightarrow> defaultLocale | Some l \<Rightarrow> l)
      in if \<not> truthy translations' then Inr key
         else (case navigate (split_on CHR ''.'' key) translations' of
                 Inl err \<Rightarrow> Inl err
               | Inr None \<Rightarrow> Inr key
               | Inr (Some value) \<Rightarrow>
                   (case value of
                      Str s \<Rightarrow>
                        (case params of
                           Some ps \<Rightarrow> interpolate s ps
                         | None \<Rightarrow> Inr s)
                    | _ \<Rightarrow> Inr key)))"

text \<open>
  What it means for a dot-separated path to resolve in a table: each segment names an
  own property of the object (or an element or the length of the array) reached so far.
\<close>

fun resolve :: "jsval \<Rightarrow> string list \<Rightarrow> jsval option" where
  "resolve v [] = Some v"
| "resolve (Obj ps) (k # ks) = (case map_of ps k of None \<Rightarrow> None | Some v \<Rightarrow> resolve v ks)"
| "resolve (Arr xs) (k # ks) =
     (if k = ''length'' then resolve (Num (int (length xs))) ks
      else (case array_index k of
              None \<Rightarrow> None
            | Some i \<Rightarrow> if i < length xs then resolve (xs ! i) ks else None))"
| "resolve v (k # ks) = None"

text \<open>The table of a loaded English file, and a Slovenian one that lacks a key.\<close>

definition en_table :: jsval where
  "en_table =
     Obj [(''email'', Obj [(''subject'', Str ''Your {year} Unwrapped is here, {name}!''),
                           (''quickPeek'', Obj [(''title'', Str ''Quick peek'')]),
                           (''tags'', Arr [Str ''a'', Str ''b''])])]"

definition sl_table :: jsval where
  "sl_table = Obj [(''email'', Obj [(''title'', Str ''Pozdravljeni'')])]"

definition sample_translations :: "string \<Rightarrow> jsval option" where
  "sample_translations =
     (\<lambda>l. if l = ''en'' then Some en_table
          else if l = ''sl'' then Some sl_table
          else None)"

text \<open>The parameter object \<open>{ year: 2025 }\<close>.\<close>

definition sample_params :: "string \<Rightarrow> param_value" where
  "sample_params = (\<lambda>k. if k = ''year'' then Converts ''2025'' else Absent)"

text \<open>The parameter object \<open>{ year: 2025, name: Object.create(null) }\<close>.\<close>

definition bare_object_params :: "string \<Rightarrow> param_value" where
  "bare_object_params =
     (\<lambda>k. if k = ''year'' then Converts ''2025''
          else if k = ''name''
               then Unconvertible (TypeError ''Cannot convert object to primitive value'')
               else Absent)"

text \<open>
  No property of the parameter object throws when it is read and converted to a string.
\<close>

definition convertible :: "(string \<Rightarrow> param_value) option \<Rightarrow> bool" where
  "convertible params \<longleftrightarrow>
     (case params of
        None \<Rightarrow> True
      | Some ps \<Rightarrow> \<forall>k. ps k = Absent \<or> (\<exists>s. ps k = Converts s))"

section \<open>Frontend locale selection (frontend/lib/locale.ts)\<close>

text \<open>
  The module imports \<open>locales\<close> and \<open>defaultLocale\<close> from \<open>./i18n\<close>; the two constants
  are parameters here.
\<close>

record i18n_lib =
  locales :: "string list"
  default_locale :: string

text \<open>
  The exception a browser throws on access to \<open>localStorage\<close> when its settings deny
  the page persistent storage.
\<close>

datatype dom_exception = SecurityError

text \<open>
  The browser: \<open>None\<close> stands for \<open>typeof window === 'undefined'\<close> (rendering on the
  server). \<open>preferredLanguage\<close> is the outcome of
  \<open>localStorage.getItem('preferredLanguage')\<close>: the exception when the browser denies
  access to the storage, \<open>null\<close> when nothing is stored, the stored string otherwise.
\<close>

record window =
  preferredLanguage :: "dom_exception + string option"
  navigator_language :: string

text \<open>\<open>URLSearchParams.get\<close> returns the first value of the name, or \<open>null\<close>.\<close>

definition searchParams_get :: "(string \<times> string) list \<Rightarrow> string \<Rightarrow> string option" where
  "searchParams_get searchParams name = map_of searchParams name"

definition getLocaleFromURL :: "i18n_lib \<Rightarrow> (string \<times> string) list \<Rightarrow> string option" where
  "getLocaleFromURL lib searchParams =
     (case searchParams_get searchParams ''lang'' of
        None \<Rightarrow> None
      | Some langParam \<Rightarrow>
          if langParam \<noteq> [] \<and> langParam \<in> set (locales lib) then Some langParam else None)"

text \<open>
  \<open>getLocaleFromStorage\<close> calls \<open>localStorage.getItem\<close> outside any \<open>try\<close>, so the
  exception of a denied access is its own outcome.
\<close>

definition getLocaleFromStorage :: "i18n_lib \<Rightarrow> window option \<Rightarrow> dom_exception + string option" where
  "getLocaleFromStorage lib win =
     (case win of
        None \<Rightarrow> Inr None
      | Some w \<Rightarrow>
          (case preferredLanguage w of
             Inl err \<Rightarrow> Inl err
           | Inr None \<Rightarrow> Inr None
           | Inr (Some stored) \<Rightarrow>
               Inr (if stored \<noteq> [] \<and> stored \<in> set (locales lib) then Some stored else None)))"

text \<open>\<open>navigator.language.split('-')[0]\<close>\<close>

definition primary_subtag :: "string \<Rightarrow> string" where
  "primary_subtag language = (case split_on CHR ''-'' language of [] \<Rightarrow> [] | x # xs \<Rightarrow> x)"

definition getLocaleFromBrowser :: "i18n_lib \<Rightarrow> window option \<Rightarrow> string" where
  "getLocaleFromBrowser lib win =
     (case win of
        None \<Rightarrow> default_locale lib
      | Some w \<Rightarrow>
          (let browserLang = primary_subtag (navigator_language w) in
           if browserLang \<in> set (locales lib) then browserLang else default_locale lib))"

text \<open>
  \<open>getLocaleFromURL(searchParams) || getLocaleFromStorage() || getLocaleFromBrowser() ||
  defaultLocale\<close>: \<open>||\<close> passes over \<open>null\<close> and over the empty string, and does not
  evaluate its right operand when the left one is truthy; an exception thrown by an
  operand that is evaluated leaves the function.
\<close>

definition determineLocale ::
  "i18n_lib \<Rightarrow> (string \<times> string) list \<Rightarrow> window option \<Rightarrow> dom_exception + string" where
  "determineLocale lib searchParams win =
     (case getLocaleFromURL lib searchParams of
        Some l \<Rightarrow> Inr l
      | None \<Rightarrow>
          (case getLocaleFromStorage lib win of
             Inl err \<Rightarrow> Inl err
           | Inr (Some l) \<Rightarrow> Inr l
           | Inr None \<Rightarrow>
               (let b = getLocaleFromBrowser lib win in
                Inr (if b \<noteq> [] then b else default_locale lib))))"

text \<open>
  The claimed precedence, said directly: the values offered by the three sources in the
  order URL, stored preference, browser language; the first one that is a supported
  locale wins, and the default is the answer when none is. A storage that cannot be read
  offers nothing.
\<close>

definition offered :: "(string \<times> string) list \<Rightarrow> window option \<Rightarrow> string list" where
  "offered searchParams win =
     (case searchParams_get searchParams ''lang'' of None \<Rightarrow> [] | Some l \<Rightarrow> [l])
     @ (case win of
          None \<Rightarrow> []
        | Some w \<Rightarrow>
            (case preferredLanguage w of Inr (Some s) \<Rightarrow> [s] | _ \<Rightarrow> [])
            @ [primary_subtag (navigator_language w)])"

definition first_supported :: "i18n_lib \<Rightarrow> string list \<Rightarrow> string" where
  "first_supported lib vs =
     (case find (\<lambda>v. v \<in> set (locales lib)) vs of
        None \<Rightarrow> default_locale lib
      | Some l \<Rightarrow> l)"

text \<open>The URL carries a \<open>lang\<close> parameter that is a supported locale.\<close>

definition url_lang_supported :: "i18n_lib \<Rightarrow> (string \<times> string) list \<Rightarrow> bool" where
  "url_lang_supported lib searchParams \<longleftrightarrow>
     (case searchParams_get searchParams ''lang'' of
        None \<Rightarrow> False
      | Some l \<Rightarrow> l \<in> set (locales lib))"

text \<open>The page runs in a browser that denies it access to \<open>localStorage\<close>.\<close>

definition storage_denied :: "window option \<Rightarrow> bool" where
  "storage_denied win \<longleftrightarrow>
     (case win of
        None \<Rightarrow> False
      | Some w \<Rightarrow> (case preferredLanguage w of Inl err \<Rightarrow> True | Inr v \<Rightarrow> False))"

definition five_locales :: i18n_lib where
  "five_locales = \<lparr>locales = [''en'', ''es'', ''fr'', ''de'', ''sl''], default_locale = ''en''\<rparr>"

text \<open>
  A French-Canadian browser with a stored preference that is not supported, and the same
  browser with access to the storage denied.
\<close>

definition open_window :: window where
  "open_window = \<lparr>preferredLanguage = Inr (Some ''pt''), navigator_language = ''fr-CA''\<rparr>"

definition private_window :: window where
  "private_window = \<lparr>preferredLanguage = Inl SecurityError, navigator_language = ''fr-CA''\<rparr>"

section \<open>Batch email sending (backend/src/routes/admin.routes.ts)\<close>

text \<open>\<open>String(n)\<close> for an integer \<open>n\<close>, digit by digit.\<close>

text \<open>The decimal digit of a number below ten.\<close>

definition digit_char :: "nat \<Rightarrow> char" where
  "digit_char d = ''0123456789'' ! (d mod 10)"

text \<open>The decimal numeral of a natural number.\<close>

function decimal :: "nat \<Rightarrow> string" where
  "decimal n = (if n < 10 then [digit_char n] else decimal (n div 10) @ [digit_char (n mod 10)])"
  by pat_completeness auto
termination
  by (relation "measure (\<lambda>n. n)") auto

text \<open>The same for an integer, with its sign.\<close>

definition js_string_of_int :: "int \<Rightarrow> string" where
  "js_string_of_int i = (if i < 0 then CHR ''-'' # decimal (nat (- i)) else decimal (nat i))"

text \<open>
  \<open>email_logs.status\<close> is restricted to six values and defaults to \<open>'pending'\<close>.
\<close>

datatype email_status =
  Email_pending | Email_sent | Email_failed | Email_bounced | Email_opened | Email_clicked

text \<open>The columns of \<open>email_logs\<close> that \<open>EmailLogModel.create\<close> and \<open>markSent\<close> set.\<close>

record email_log =
  el_user_id :: int
  el_generation_id :: int
  email_to :: string
  email_subject :: string
  email_status :: email_status

text \<open>A message accepted by the SMTP transport.\<close>

record sent_mail =
  mail_to :: string
  mail_subject :: string
  mail_lang :: string

text \<open>
  The state the endpoint can read and write: the ids of the stored generations, the
  stats, user and token tables, the email log table, the messages handed to SMTP and the
  application log.
\<close>

record 's mail_world =
  generation_ids :: "int list"
  mw_stats :: "'s stats_row list"
  mw_users :: "user list"
  mw_tokens :: "token_row list"
  email_logs :: "email_log list"
  outbox :: "sent_mail list"
  app_log :: "string list"

text \<open>
  \<open>TEST_MODE\<close> is \<open>process.env.TEST_MODE\<close>; \<open>smtp_rejects n\<close> says whether the
  \<open>n\<close>-th call of \<open>transporter.sendMail\<close> rejects; \<open>i18n_tables\<close> are the tables of
  the translation service. The database calls of this flow are taken to resolve.
\<close>

record send_env =
  TEST_MODE :: "string option"
  smtp_rejects :: "nat \<Rightarrow> bool"
  i18n_tables :: "string \<Rightarrow> jsval option"

text \<open>
  \<open>const { generationId, userIds, testMode } = req.body\<close>; an omitted \<open>testMode\<close> is
  \<open>Undefined\<close>.
\<close>

record send_request =
  generationId :: int
  userIds :: "int list option"
  testMode :: jsval

text \<open>The JSON object of the response.\<close>

record send_response =
  success :: bool
  message :: string
  testMode_reply :: "bool option"
  count :: "nat option"

text \<open>\<open>logger.info\<close>, \<open>logger.warn\<close> and \<open>logger.error\<close> of this flow.\<close>

definition logger_info :: "string \<Rightarrow> 's mail_world \<Rightarrow> 's mail_world" where
  "logger_info line w = w\<lparr>app_log := app_log w @ [line]\<rparr>"

text \<open>
  Modelled from the spec: \<open>AccessTokenModel.findByWrappedStatsId\<close> (not among the
  sources): the token of a stats row, or \<open>null\<close>.
\<close>

definition findByWrappedStatsId :: "token_row list \<Rightarrow> int \<Rightarrow> token_row option" where
  "findByWrappedStatsId toks sid = find (\<lambda>t. user_wrapped_stats_id t = sid) toks"

text \<open>
  \<open>async function sendEmails(statsList, generationId)\<close>. The counter \<open>n\<close> numbers the
  calls of \<open>sendMail\<close>. An exception inside the loop body is caught and logged, and the
  loop goes on; the log row created before a rejected \<open>sendMail\<close> stays \<open>pending\<close>.
\<close>

fun sendEmails :: "send_env \<Rightarrow> 's stats_row list \<Rightarrow> int \<Rightarrow> nat \<Rightarrow> 's mail_world \<Rightarrow> 's mail_world" where
  "sendEmails e [] gid n w = logger_info ''Email sending completed'' w"
| "sendEmails e (st # statsList) gid n w =
     (case findById (mw_users w) (user_id st) of
        None \<Rightarrow> sendEmails e statsList gid n (logger_info ''User has no email, skipping'' w)
      | Some usr \<Rightarrow>
          (case email usr of
             None \<Rightarrow> sendEmails e statsList gid n (logger_info ''User has no email, skipping'' w)
           | Some addr \<Rightarrow>
               if addr = []
               then sendEmails e statsList gid n (logger_info ''User has no email, skipping'' w)
               else
                 (case findByWrappedStatsId (mw_tokens w) (s_id st) of
                    None \<Rightarrow> sendEmails e statsList gid n (logger_info ''No token found for stats'' w)
                  | Some tokenRecord \<Rightarrow>
                      (let lang = (if preferred_language usr \<noteq> [] then preferred_language usr
                                   else ''en'')
                       in case translate (i18n_tables e) ''email.subject'' (Some lang)
                                 (Some (\<lambda>k. if k = ''year''
                                             then Converts (js_string_of_int (year st))
                                             else Absent)) of
                            Inl err \<Rightarrow>
                              sendEmails e statsList gid n (logger_info ''Failed to send email'' w)
                          | Inr emailSubject \<Rightarrow>
                              (let emailLog =
                                     \<lparr>el_user_id = u_id usr, el_generation_id = gid,
                                      email_to = addr, email_subject = emailSubject,
                                      email_status = Email_pending\<rparr>;
                                   w1 = w\<lparr>email_logs := email_logs w @ [emailLog]\<rparr>
                               in if smtp_rejects e n
                                  then sendEmails e statsList gid (Suc n)
                                         (logger_info ''Failed to send email'' w1)
                                  else sendEmails e statsList gid (Suc n)
                                         (logger_info ''Email sent''
                                            (w1\<lparr>outbox := outbox w1 @
                                                   [\<lparr>mail_to = addr, mail_subject = emailSubject,
                                                     mail_lang = lang\<rparr>],
                                                 email_logs := email_logs w @
                                                   [emailLog\<lparr>email_status := Email_sent\<rparr>]\<rparr>)))))))"

text \<open>
  \<open>router.post('/emails/send', ...)\<close>. The result is the response (or the HTTP error
  thrown through \<open>createError\<close>) together with the state once the background job
  \<open>sendEmails\<close>, which the handler starts without awaiting, has run to its end.
\<close>

definition post_emails_send ::
  "send_env \<Rightarrow> send_request \<Rightarrow> 's mail_world \<Rightarrow> ((nat \<times> string) + send_response) \<times> 's mail_world" where
  "post_emails_send e req w =
     (let isTestMode =
            (if testMode req \<noteq> Undefined then testMode req
             else Bool (TEST_MODE e = Some ''true''))
      in if truthy isTestMode
         then (Inr \<lparr>success = True, message = ''TEST_MODE enabled - no emails sent'',
                     testMode_reply = Some True, count = None\<rparr>,
               logger_info ''TEST_MODE is enabled - emails will NOT be sent'' w)
         else
           (let w1 = logger_info ''Starting email send process for generation'' w in
            if generationId req \<notin> set (generation_ids w1)
            then (Inl (404, ''Generation not found''), w1)
            else
              (let found = filter (\<lambda>s. generation_id s = generationId req) (mw_stats w1);
                   selected =
                     (case userIds req of
                        None \<Rightarrow> found
                      | Some ids \<Rightarrow>
                          if length ids > 0 then filter (\<lambda>s. user_id s \<in> set ids) found
                          else found)
               in (Inr \<lparr>success = True,
                         message = ''Started sending emails to '' @ decimal (length selected)
                                   @ '' users'',
                         testMode_reply = None, count = Some (length selected)\<rparr>,
                   sendEmails e selected (generationId req) 0 w1))))"

text \<open>
  Test mode is in effect: the request says \<open>testMode: true\<close>, or it omits \<open>testMode\<close>
  and the \<open>TEST_MODE\<close> environment flag is enabled.
\<close>

definition test_mode_in_effect :: "send_env \<Rightarrow> send_request \<Rightarrow> bool" where
  "test_mode_in_effect e req \<longleftrightarrow>
     testMode req = Bool True \<or> (testMode req = Undefined \<and> TEST_MODE e = Some ''true'')"

text \<open>
  An environment with the test flag set and a working SMTP transport, and a world with
  one generation, one stats row and one token for a user with an address.
\<close>

definition mail_env :: send_env where
  "mail_env = \<lparr>TEST_MODE = Some ''true'', smtp_rejects = (\<lambda>n. False),
               i18n_tables = sample_translations\<rparr>"

definition mail_world0 :: "unit mail_world" where
  "mail_world0 =
     \<lparr>generation_ids = [7], mw_stats = [earlier_row\<lparr>generation_id := 7\<rparr>],
      mw_users = three_users,
      mw_tokens = [\<lparr>user_wrapped_stats_id = 1, t_user_id = 1, t_year = 2025,
                    created_by = ''generation''\<rparr>],
      email_logs = [], outbox = [], app_log = []\<rparr>"

section \<open>Fun facts on the wrapped page (frontend/app/wrapped/[token]/page.tsx)\<close>

text \<open>
  The fields of \<open>WrappedData.stats\<close> that the fun-facts block of \<open>WrappedPage\<close> reads.
  \<open>funFacts\<close>, \<open>mostActiveDayOfWeek\<close> and \<open>qualityStats\<close> are tested for truthiness
  by the block, so they are optional here (\<open>None\<close> for \<open>null\<close> or \<open>undefined\<close>).
\<close>

record top_show =
  show_title :: string
  show_plays :: int
  episodes :: int

record top_device =
  device :: string
  device_plays :: int

record quality_stats =
  transcode :: int
  directPlay :: int
  directStream :: int

record page_stats =
  totalPlays :: int
  totalMovies :: int
  totalTvEpisodes :: int
  daysActive :: int
  mostActiveDayOfWeek :: "string option"
  topShows :: "top_show list"
  topDevices :: "top_device list"
  qualityStats :: "quality_stats option"
  funFacts :: "string list option"

text \<open>
  The values handed to the translator \<open>t\<close> of \<open>useTranslations('wrapped')\<close>.
  \<open>Rounded_percent a b\<close> stands for the number \<open>Math.round((a / b) * 100)\<close>: it is a
  floating-point computation (and \<open>Infinity\<close> or \<open>NaN\<close> for \<open>b = 0\<close>), so it is kept as
  its two operands. The translator itself belongs to the next-intl library and is a
  parameter.
\<close>

datatype fact_value = Text string | Number int | Rounded_percent int int

type_synonym translator = "string \<Rightarrow> (string \<times> fact_value) list \<Rightarrow> string"

text \<open>
  The block pushes onto \<open>generatedFacts\<close> statement by statement and returns
  \<open>generatedFacts.slice(0, 6)\<close>. The earlier copy of the page without translations
  has the same statements with template strings in the place of the calls of \<open>t\<close>.
\<close>

definition generatedFacts :: "translator \<Rightarrow> page_stats \<Rightarrow> string list" where
  "generatedFacts t stats =
     (let facts0 = [];
          facts1 = (case funFacts stats of None \<Rightarrow> facts0 | Some fs \<Rightarrow> facts0 @ fs);
          facts2 =
            (case mostActiveDayOfWeek stats of
               None \<Rightarrow> facts1
             | Some day \<Rightarrow>
                 if day \<noteq> [] then facts1 @ [t ''funFacts.dayOfWeek'' [(''day'', Text day)]]
                 else facts1);
          facts3 =
            (case topShows stats of
               [] \<Rightarrow> facts2
             | s # rest \<Rightarrow>
                 if episodes s > 20
                 then facts2 @ [t ''funFacts.crushedEpisodes''
                                  [(''count'', Number (episodes s)), (''title'', Text (show_title s))]]
                 else facts2);
          facts4 =
            (case qualityStats stats of
               None \<Rightarrow> facts3
             | Some q \<Rightarrow>
                 if directPlay q > transcode q
                 then facts3 @ [t ''funFacts.originalQuality''
                                  [(''percentage'', Rounded_percent (directPlay q) (totalPlays stats))]]
                 else facts3);
          moviesVsShows =
            (if totalMovies stats > totalTvEpisodes stats then t ''contentTypes.movies'' []
             else t ''contentTypes.tvShows'' []);
          facts5 = facts4 @ [t ''funFacts.preference'' [(''type'', Text moviesVsShows)]];
          facts6 =
            (if daysActive stats < 200
             then facts5 @ [t ''funFacts.watchedPercentage''
                              [(''percentage'', Rounded_percent (daysActive stats) 365)]]
             else facts5);
          facts7 =
            (case topDevices stats of
               [] \<Rightarrow> facts6
             | d # rest \<Rightarrow> facts6 @ [t ''funFacts.favoriteDevice'' [(''device'', Text (device d))]])
      in take 6 facts7)"

text \<open>
  The same facts as an ordered table of rules, each of which fires with one fact or does
  not fire.
\<close>

definition rule_dayOfWeek :: "translator \<Rightarrow> page_stats \<Rightarrow> string option" where
  "rule_dayOfWeek t stats =
     (case mostActiveDayOfWeek stats of
        None \<Rightarrow> None
      | Some day \<Rightarrow>
          if day = [] then None else Some (t ''funFacts.dayOfWeek'' [(''day'', Text day)]))"

definition rule_crushedEpisodes :: "translator \<Rightarrow> page_stats \<Rightarrow> string option" where
  "rule_crushedEpisodes t stats =
     (case topShows stats of
        [] \<Rightarrow> None
      | s # rest \<Rightarrow>
          if episodes s > 20
          then Some (t ''funFacts.crushedEpisodes''
                       [(''count'', Number (episodes s)), (''title'', Text (show_title s))])
          else None)"

definition rule_originalQuality :: "translator \<Rightarrow> page_stats \<Rightarrow> string option" where
  "rule_originalQuality t stats =
     (case qualityStats stats of
        None \<Rightarrow> None
      | Some q \<Rightarrow>
          if directPlay q > transcode q
          then Some (t ''funFacts.originalQuality''
                       [(''percentage'', Rounded_percent (directPlay q) (totalPlays stats))])
          else None)"

definition rule_preference :: "translator \<Rightarrow> page_stats \<Rightarrow> string option" where
  "rule_preference t stats =
     Some (t ''funFacts.preference''
             [(''type'', Text (if totalMovies stats > totalTvEpisodes stats
                               then t ''contentTypes.movies'' []
                               else t ''contentTypes.tvShows'' []))])"

definition rule_watchedPercentage :: "translator \<Rightarrow> page_stats \<Rightarrow> string option" where
  "rule_watchedPercentage t stats =
     (if daysActive stats < 200
      then Some (t ''funFacts.watchedPercentage''
                   [(''percentage'', Rounded_percent (daysActive stats) 365)])
      else None)"

definition rule_favoriteDevice :: "translator \<Rightarrow> page_stats \<Rightarrow> string option" where
  "rule_favoriteDevice t stats =
     (case topDevices stats of
        [] \<Rightarrow> None
      | d # rest \<Rightarrow> Some (t ''funFacts.favoriteDevice'' [(''device'', Text (device d))]))"

definition rule_table :: "(translator \<Rightarrow> page_stats \<Rightarrow> string option) list" where
  "rule_table =
     [rule_dayOfWeek, rule_crushedEpisodes, rule_originalQuality, rule_preference,
      rule_watchedPercentage, rule_favoriteDevice]"

definition fired_fact :: "string option \<Rightarrow> string list" where
  "fired_fact r = (case r of None \<Rightarrow> [] | Some x \<Rightarrow> [x])"

definition fired :: "translator \<Rightarrow> page_stats \<Rightarrow> string list" where
  "fired t stats = List.map_filter (\<lambda>rule. rule t stats) rule_table"

definition original_facts :: "page_stats \<Rightarrow> string list" where
  "original_facts stats = (case funFacts stats of None \<Rightarrow> [] | Some fs \<Rightarrow> fs)"

text \<open>
  The stats of a user-year without a single play: every counter zero, every list empty,
  no most active day, no fun fact from the backend. These are also the column defaults
  of \<open>user_wrapped_stats\<close>.
\<close>

definition all_zero_stats :: page_stats where
  "all_zero_stats =
     \<lparr>totalPlays = 0, totalMovies = 0, totalTvEpisodes = 0, daysActive = 0,
      mostActiveDayOfWeek = None, topShows = [], topDevices = [],
      qualityStats = Some \<lparr>transcode = 0, directPlay = 0, directStream = 0\<rparr>,
      funFacts = Some []\<rparr>"

section \<open>The aggregation engine\<close>

text \<open>
  The orchestrator calls \<open>calculator.calculateUserStats\<close> of
  \<open>backend/src/processors/stats-calculator\<close>, which is not among the sources. This
  section models that engine from sections 3 to 7 of the specification. Where the
  specification leaves a choice open, the choice made is stated at the definition.
\<close>

subsection \<open>Watch events (specification, section 3)\<close>

text \<open>
  Modelled from the spec: for the missing engine, the media kind of a
  \<open>WatchEvent\<close>, movie or episode.
\<close>

datatype media_kind = Movie | Episode

text \<open>
  Modelled from the spec: for the missing engine, the play decision of a
  \<open>WatchEvent\<close>.
\<close>

datatype play_decision = DirectPlay | DirectStream | Transcode

text \<open>
  Modelled from the spec: \<open>WatchEvent\<close>, the input record of the missing engine.
  \<open>startedAt\<close> is a timestamp in seconds since 1970-01-01 00:00:00 UTC;
  \<open>durationWatchedMinutes\<close> is a whole number of minutes; \<open>playedOn\<close> is the device.
\<close>

record watch_event =
  mediaKind :: media_kind
  ratingKey :: int
  title :: string
  showTitle :: "string option"
  seasonNumber :: "nat option"
  episodeNumber :: "nat option"
  releaseYear :: "int option"
  startedAt :: int
  durationWatchedMinutes :: int
  playedOn :: string
  platform :: string
  playDecision :: play_decision
  resolution :: string
  genres :: "string list"
  actors :: "string list"
  directors :: "string list"

text \<open>
  Modelled from the spec: a record handed to the missing engine by the history source
  either is a \<open>WatchEvent\<close> or is malformed (a required field is missing or the
  timestamp cannot be parsed; section 7).
\<close>

datatype history_record = Event watch_event | Malformed

text \<open>
  Modelled from the spec: the configuration threaded into the call of the missing engine
  (section 9): the binge gap in seconds, the cap of the content rankings, the cap of the
  tag rankings and the cap of the fun-fact list.
\<close>

record engine_config =
  bingeGapSeconds :: int
  contentCap :: nat
  tagCap :: nat
  factCap :: nat

text \<open>
  Modelled from the spec: the default configuration of the missing engine: a gap of four
  hours, caps of 10, 5 and 6.
\<close>

definition default_config :: engine_config where
  "default_config = \<lparr>bingeGapSeconds = 4 * 3600, contentCap = 10, tagCap = 5, factCap = 6\<rparr>"

text \<open>
  Modelled from the spec: the optional supplementary input of the missing engine
  (section 6).
\<close>

record supplementary =
  libraryMovieCount :: "nat option"
  libraryShowCount :: "nat option"
  requestCountsByTitle :: "(string \<times> nat) list"

subsection \<open>Calendar\<close>

text \<open>
  Modelled from the spec: the missing engine buckets by calendar day; the day of a
  timestamp is the number of whole days since 1970-01-01 (UTC).
\<close>

definition day_number :: "int \<Rightarrow> int" where
  "day_number ts = ts div 86400"

text \<open>
  Modelled from the spec: the missing engine reads years and months off timestamps;
  year, month and day of the month of a day number in the proleptic Gregorian calendar.
\<close>

definition civil :: "int \<Rightarrow> int \<times> int \<times> int" where
  "civil dn =
     (let z = dn + 719468;
          era = z div 146097;
          doe = z mod 146097;
          yoe = (doe - doe div 1460 + doe div 36524 - doe div 146096) div 365;
          doy = doe - (365 * yoe + yoe div 4 - yoe div 100);
          mp = (5 * doy + 2) div 153;
          d = doy - (153 * mp + 2) div 5 + 1;
          m = (if mp < 10 then mp + 3 else mp - 9);
          y = yoe + era * 400 + (if m \<le> 2 then 1 else 0)
      in (y, m, d))"

text \<open>
  Modelled from the spec: for the missing engine, the calendar year of a timestamp, for
  the year filter.
\<close>

definition year_of :: "int \<Rightarrow> int" where
  "year_of ts = fst (civil (day_number ts))"

text \<open>
  Modelled from the spec: for the missing engine, the month (1 to 12) of a timestamp,
  for the month buckets.
\<close>

definition month_of :: "int \<Rightarrow> int" where
  "month_of ts = fst (snd (civil (day_number ts)))"

text \<open>
  Modelled from the spec: for the missing engine, the hour (0 to 23) of a timestamp, for
  the hour buckets.
\<close>

definition hour_of :: "int \<Rightarrow> int" where
  "hour_of ts = (ts mod 86400) div 3600"

text \<open>
  Modelled from the spec: for the missing engine, the day of the week of a timestamp,
  for the day-of-week buckets; 0 is Sunday, as the tie-break "Sunday before Saturday"
  orders them.
\<close>

definition day_of_week :: "int \<Rightarrow> int" where
  "day_of_week ts = (day_number ts + 4) mod 7"

text \<open>
  Modelled from the spec: for the missing engine, the number of days of the target year,
  the whole of the percentage of days active.
\<close>

definition days_in_year :: "int \<Rightarrow> int" where
  "days_in_year y = (if y mod 4 = 0 \<and> (y mod 100 \<noteq> 0 \<or> y mod 400 = 0) then 366 else 365)"

text \<open>
  Modelled from the spec: for the missing engine, the name under which the most active
  month is reported.
\<close>

definition month_name :: "int \<Rightarrow> string" where
  "month_name m =
     [''January'', ''February'', ''March'', ''April'', ''May'', ''June'', ''July'', ''August'',
      ''September'', ''October'', ''November'', ''December''] ! nat ((m - 1) mod 12)"

text \<open>
  Modelled from the spec: for the missing engine, the name under which the most active
  day of the week is reported.
\<close>

definition weekday_name :: "int \<Rightarrow> string" where
  "weekday_name d =
     [''Sunday'', ''Monday'', ''Tuesday'', ''Wednesday'', ''Thursday'', ''Friday'', ''Saturday'']
       ! nat (d mod 7)"

subsection \<open>Normalization (specification, sections 4.1, 6 and 7)\<close>

text \<open>
  Modelled from the spec: the missing engine skips a malformed record and goes on
  (section 7); these are the events that remain.
\<close>

definition well_formed :: "history_record list \<Rightarrow> watch_event list" where
  "well_formed records = List.map_filter (\<lambda>r. case r of Event e \<Rightarrow> Some e | Malformed \<Rightarrow> None) records"

text \<open>
  Modelled from the spec: for the missing engine, the count of skipped malformed
  records, surfaced alongside the result (section 7).
\<close>

definition skipped_malformed :: "history_record list \<Rightarrow> nat" where
  "skipped_malformed records = length (filter (\<lambda>r. r = Malformed) records)"

text \<open>
  Modelled from the spec: for the missing engine, an event qualifies when its duration
  is more than zero and its timestamp falls within the target year (section 4.1).
\<close>

definition qualifies :: "int \<Rightarrow> watch_event \<Rightarrow> bool" where
  "qualifies target e \<longleftrightarrow> 0 < durationWatchedMinutes e \<and> year_of (startedAt e) = target"

text \<open>
  Modelled from the spec: the pair (ratingKey, startedAt) by which the missing engine
  recognises a duplicate (section 6).
\<close>

definition identity :: "watch_event \<Rightarrow> int \<times> int" where
  "identity e = (ratingKey e, startedAt e)"

text \<open>
  Modelled from the spec: for the missing engine, de-duplication by (ratingKey,
  startedAt) before bucketing (section 6): of the events that share a pair, the first
  one met is kept; \<open>seen\<close> holds the pairs met so far. The engine meets the events in
  the order of \<open>event_order\<close> below, not in the order of its input.
\<close>

fun dedupe :: "(int \<times> int) list \<Rightarrow> watch_event list \<Rightarrow> watch_event list" where
  "dedupe seen [] = []"
| "dedupe seen (e # es) =
     (if identity e \<in> set seen then dedupe seen es
      else e # dedupe (identity e # seen) es)"

text \<open>
  Modelled from the spec: for the missing engine, the code by which the media kind of
  an event enters the order of events.
\<close>

fun kind_code :: "media_kind \<Rightarrow> nat" where
  "kind_code Movie = 0"
| "kind_code Episode = 1"

text \<open>
  Modelled from the spec: for the missing engine, the same for the play decision.
\<close>

fun decision_code :: "play_decision \<Rightarrow> nat" where
  "decision_code DirectPlay = 0"
| "decision_code DirectStream = 1"
| "decision_code Transcode = 2"

text \<open>
  Modelled from the spec: the missing engine does not assume chronological input and
  sorts internally (section 3), and its result must not depend on the order of its input
  (sections 3 and 8). The sort key is the start time, then the rating key for events that
  start at the same instant, then every other field of the event, so that two events
  have the same key only when they are the same in every field. The specification does
  not say which of several differing records with the same (ratingKey, startedAt) is
  retained; with this key it is the one with the shortest duration, and among those the
  least in the remaining fields, wherever the records stood in the input.
\<close>

definition event_order ::
  "watch_event \<Rightarrow>
     (int \<times> int \<times> int) \<times> (nat \<times> string \<times> string option \<times> nat option \<times> nat option \<times> int option)
       \<times> (string \<times> string \<times> nat \<times> string) \<times> (string list \<times> string list \<times> string list)" where
  "event_order e =
     ((startedAt e, ratingKey e, durationWatchedMinutes e),
      (kind_code (mediaKind e), title e, showTitle e, seasonNumber e, episodeNumber e,
       releaseYear e),
      (playedOn e, platform e, decision_code (playDecision e), resolution e),
      (genres e, actors e, directors e))"

text \<open>
  Modelled from the spec: for the missing engine, event normalization: skip malformed
  records, keep the qualifying events, put them in chronological order and
  de-duplicate.
\<close>

definition normalize_events :: "int \<Rightarrow> history_record list \<Rightarrow> watch_event list" where
  "normalize_events target records =
     dedupe [] (sort_key event_order (filter (qualifies target) (well_formed records)))"

subsection \<open>Buckets and rankings (specification, sections 4.1 and 4.2)\<close>

text \<open>
  Modelled from the spec: for the missing engine, the minutes sum of a list of events.
\<close>

definition minutes_of :: "watch_event list \<Rightarrow> int" where
  "minutes_of es = sum_list (map durationWatchedMinutes es)"

text \<open>
  Modelled from the spec: for the missing engine, the keys of the groups of a ranking,
  each at the place of its first occurrence, so that no order of an underlying map
  enters the result.
\<close>

definition first_occurrences :: "'a list \<Rightarrow> 'a list" where
  "first_occurrences xs = rev (remdups (rev xs))"

text \<open>
  Modelled from the spec: a bucket of the missing engine accumulates a play count and a
  minutes sum (section 4.1).
\<close>

record 'k bucket =
  bucket_key :: 'k
  bucket_plays :: nat
  bucket_minutes :: int

text \<open>
  Modelled from the spec: for the missing engine, the bucket of one key.
\<close>

definition bucket_of :: "(watch_event \<Rightarrow> 'k) \<Rightarrow> watch_event list \<Rightarrow> 'k \<Rightarrow> 'k bucket" where
  "bucket_of keyf es k =
     (let sel = filter (\<lambda>e. keyf e = k) es
      in \<lparr>bucket_key = k, bucket_plays = length sel, bucket_minutes = minutes_of sel\<rparr>)"

text \<open>
  Modelled from the spec: for the missing engine, the buckets of a calendar key (day,
  month, day of week, hour), in calendar order.
\<close>

definition calendar_buckets :: "(watch_event \<Rightarrow> int) \<Rightarrow> watch_event list \<Rightarrow> int bucket list" where
  "calendar_buckets keyf es = map (bucket_of keyf es) (sort (remdups (map keyf es)))"

text \<open>
  Modelled from the spec: one group of a ranking of the missing engine. \<open>earliest\<close> is
  the earliest start time observed in the group. Shows additionally track their distinct
  episodes and their completed seasons; the two fields are 0 in every other ranking.
\<close>

record 'k ranked =
  group_key :: 'k
  label :: string
  plays :: nat
  minutes :: int
  earliest :: int
  distinctEpisodes :: nat
  seasonsCompleted :: nat

text \<open>
  Modelled from the spec: the episode numbers the missing engine has seen for a season.
\<close>

definition episode_numbers :: "watch_event list \<Rightarrow> nat \<Rightarrow> nat list" where
  "episode_numbers es s =
     List.map_filter episodeNumber (filter (\<lambda>e. seasonNumber e = Some s) es)"

text \<open>
  Modelled from the spec: for the missing engine, a season counts as completed when
  every episode number from 1 to the highest one seen for the season has been watched;
  only watched data is available, so this is the approximation the specification
  describes.
\<close>

definition season_completed :: "watch_event list \<Rightarrow> nat \<Rightarrow> bool" where
  "season_completed es s \<longleftrightarrow>
     (let ns = episode_numbers es s
      in ns \<noteq> [] \<and> list_all (\<lambda>n. n \<in> set ns) [1 ..< Suc (fold max ns 0)])"

text \<open>
  Modelled from the spec: for the missing engine, the number of completed seasons among
  the events.
\<close>

definition seasons_completed :: "watch_event list \<Rightarrow> nat" where
  "seasons_completed es =
     length (filter (season_completed es) (remdups (List.map_filter seasonNumber es)))"

text \<open>
  Modelled from the spec: for the missing engine, what a show tracks in addition: its
  distinct-episode count and its completed seasons.
\<close>

definition show_progress :: "watch_event list \<Rightarrow> nat \<times> nat" where
  "show_progress es = (length (remdups (map ratingKey es)), seasons_completed es)"

text \<open>
  Modelled from the spec: for the missing engine, the same two fields for the rankings
  other than shows.
\<close>

definition no_progress :: "watch_event list \<Rightarrow> nat \<times> nat" where
  "no_progress es = (0, 0)"

text \<open>
  Modelled from the spec: for the missing engine, the group of one key.
  \<open>keysf\<close> gives the groups an event contributes to (several for a
  multi-valued tag), \<open>labelf\<close> the title shown for a group. The events are
  in chronological order, so the first event of a group is its earliest.
\<close>

definition group_of ::
  "(watch_event \<Rightarrow> 'k list) \<Rightarrow> ('k \<Rightarrow> watch_event \<Rightarrow> string) \<Rightarrow> (watch_event list \<Rightarrow> nat \<times> nat)
     \<Rightarrow> watch_event list \<Rightarrow> 'k \<Rightarrow> 'k ranked" where
  "group_of keysf labelf progressf es k =
     (let sel = filter (\<lambda>e. k \<in> set (keysf e)) es
      in \<lparr>group_key = k,
          label = (case sel of [] \<Rightarrow> [] | e # rest \<Rightarrow> labelf k e),
          plays = length sel,
          minutes = minutes_of sel,
          earliest = (case sel of [] \<Rightarrow> 0 | e # rest \<Rightarrow> startedAt e),
          distinctEpisodes = fst (progressf sel),
          seasonsCompleted = snd (progressf sel)\<rparr>)"

text \<open>
  Modelled from the spec: for the missing engine, the ranking order: play count
  descending, then minutes descending, then earliest start ascending (section 4.2).
\<close>

definition rank_order :: "'k ranked \<Rightarrow> int \<times> int \<times> int" where
  "rank_order g = (- int (plays g), - minutes g, earliest g)"

text \<open>
  Modelled from the spec: for the missing engine, group, rank and truncate to the cap.
  The sort is stable: groups that tie on all three criteria stay in the order in which
  they first occur.
\<close>

definition ranking ::
  "nat \<Rightarrow> (watch_event \<Rightarrow> 'k list) \<Rightarrow> ('k \<Rightarrow> watch_event \<Rightarrow> string) \<Rightarrow> (watch_event list \<Rightarrow> nat \<times> nat)
     \<Rightarrow> watch_event list \<Rightarrow> 'k ranked list" where
  "ranking cap keysf labelf progressf es =
     take cap (sort_key rank_order
                 (map (group_of keysf labelf progressf es)
                      (first_occurrences (concat (map keysf es)))))"

text \<open>Modelled from the spec: for the missing engine, the movie events.\<close>

definition movies_of :: "watch_event list \<Rightarrow> watch_event list" where
  "movies_of es = filter (\<lambda>e. mediaKind e = Movie) es"

text \<open>Modelled from the spec: for the missing engine, the episode events.\<close>

definition episodes_of :: "watch_event list \<Rightarrow> watch_event list" where
  "episodes_of es = filter (\<lambda>e. mediaKind e = Episode) es"

text \<open>
  Modelled from the spec: for the missing engine, the show identity an event is grouped
  under; an event without a show belongs to no show.
\<close>

definition show_keys :: "watch_event \<Rightarrow> string list" where
  "show_keys e = (case showTitle e of None \<Rightarrow> [] | Some s \<Rightarrow> [s])"

text \<open>
  Modelled from the spec: for the missing engine, the label of a group whose key is its
  title (shows, tags, devices, platforms).
\<close>

definition key_label :: "string \<Rightarrow> watch_event \<Rightarrow> string" where
  "key_label k e = k"

text \<open>
  Modelled from the spec: for the missing engine, the label of a group keyed by rating
  key (movies, episodes): the title of its earliest event.
\<close>

definition title_label :: "int \<Rightarrow> watch_event \<Rightarrow> string" where
  "title_label k e = title e"

subsection \<open>Temporal patterns (specification, section 4.3)\<close>

text \<open>
  Modelled from the spec: for the missing engine, the distinct days with at least one
  qualifying event, ascending.
\<close>

definition active_days :: "watch_event list \<Rightarrow> int list" where
  "active_days es = sort (remdups (map (\<lambda>e. day_number (startedAt e)) es))"

text \<open>
  Modelled from the spec: for the missing engine, the lengths of the maximal runs of
  consecutive days of an ascending list of distinct days.
\<close>

fun run_lengths :: "int list \<Rightarrow> nat list" where
  "run_lengths [] = []"
| "run_lengths [d] = [1]"
| "run_lengths (d # d' # ds) =
     (case run_lengths (d' # ds) of
        [] \<Rightarrow> [1]
      | n # ns \<Rightarrow> if d' = d + 1 then Suc n # ns else 1 # n # ns)"

text \<open>
  Modelled from the spec: for the missing engine, the longest streak, reported by its
  length, which is the same whichever of several longest runs is taken.
\<close>

definition longest_streak :: "watch_event list \<Rightarrow> nat" where
  "longest_streak es = fold max (run_lengths (active_days es)) 0"

text \<open>
  Modelled from the spec: for the missing engine, the viewing sessions of a
  chronological event list: an event joins the session of its predecessor when it starts
  no more than the gap after it.
\<close>

fun sessions :: "int \<Rightarrow> watch_event list \<Rightarrow> watch_event list list" where
  "sessions gap [] = []"
| "sessions gap [e] = [[e]]"
| "sessions gap (e # e' # es) =
     (case sessions gap (e' # es) of
        [] \<Rightarrow> [[e]]
      | s # ss \<Rightarrow> if startedAt e' - startedAt e \<le> gap then (e # s) # ss else [e] # s # ss)"

text \<open>
  Modelled from the spec: the argmax the missing engine takes over buckets and sessions:
  the first element with the greatest value, \<open>None\<close> for the empty list, so that ties
  go to the element that comes first.
\<close>

fun arg_max_first :: "('a \<Rightarrow> int) \<Rightarrow> 'a list \<Rightarrow> 'a option" where
  "arg_max_first f [] = None"
| "arg_max_first f (x # xs) =
     (case arg_max_first f xs of
        None \<Rightarrow> Some x
      | Some y \<Rightarrow> if f x < f y then Some y else Some x)"

text \<open>
  Modelled from the spec: for the missing engine, the longest binge is the session with
  the most minutes, the earliest one when several tie.
\<close>

definition longest_binge :: "int \<Rightarrow> watch_event list \<Rightarrow> watch_event list option" where
  "longest_binge gap es = arg_max_first minutes_of (sessions gap es)"

text \<open>
  Modelled from the spec: for the missing engine, the show of a binge is the show with
  the most minutes within the session, the one watched first when several tie; a session
  of movies has no show.
\<close>

definition binge_show :: "watch_event list \<Rightarrow> string option" where
  "binge_show session =
     map_option label
       (arg_max_first minutes
          (map (group_of show_keys key_label show_progress session)
               (first_occurrences (concat (map show_keys session)))))"

text \<open>
  Modelled from the spec: for the missing engine, the first watch by start time; of
  several events that start at the same instant the one with the larger rating key is
  preferred. In chronological order that is the last event of the leading block of equal
  start times.
\<close>

definition first_watch :: "watch_event list \<Rightarrow> watch_event option" where
  "first_watch es =
     (case es of
        [] \<Rightarrow> None
      | e # rest \<Rightarrow> Some (last (takeWhile (\<lambda>x. startedAt x = startedAt e) es)))"

text \<open>
  Modelled from the spec: for the missing engine, the last watch by start time, with the
  same preference: the last event in chronological order.
\<close>

definition last_watch :: "watch_event list \<Rightarrow> watch_event option" where
  "last_watch es = (case es of [] \<Rightarrow> None | e # rest \<Rightarrow> Some (last es))"

subsection \<open>Derived facts (specification, section 4.4)\<close>

text \<open>
  Modelled from the spec: for the missing engine, a share as a whole percentage, rounded
  to the nearest integer (halves up) and clamped to the interval from 0 to 100; a share
  of nothing is 0.
\<close>

definition round_percent :: "int \<Rightarrow> int \<Rightarrow> nat" where
  "round_percent part whole =
     (if whole \<le> 0 \<or> part \<le> 0 then 0
      else nat (min 100 ((200 * part + whole) div (2 * whole))))"

text \<open>
  Modelled from the spec: for the missing engine, the quality rollup: for each play
  decision its play count and its share of the total minutes, the three shares rounded
  independently.
\<close>

record quality =
  directPlayPlays :: nat
  directStreamPlays :: nat
  transcodePlays :: nat
  directPlayPercent :: nat
  directStreamPercent :: nat
  transcodePercent :: nat

text \<open>
  Modelled from the spec: for the missing engine, the events of one play-decision
  bucket.
\<close>

definition decision_events :: "play_decision \<Rightarrow> watch_event list \<Rightarrow> watch_event list" where
  "decision_events d es = filter (\<lambda>e. playDecision e = d) es"

text \<open>
  Modelled from the spec: for the missing engine, the quality mix of the events.
\<close>

definition quality_of :: "watch_event list \<Rightarrow> quality" where
  "quality_of es =
     \<lparr>directPlayPlays = length (decision_events DirectPlay es),
      directStreamPlays = length (decision_events DirectStream es),
      transcodePlays = length (decision_events Transcode es),
      directPlayPercent = round_percent (minutes_of (decision_events DirectPlay es)) (minutes_of es),
      directStreamPercent =
        round_percent (minutes_of (decision_events DirectStream es)) (minutes_of es),
      transcodePercent = round_percent (minutes_of (decision_events Transcode es)) (minutes_of es)\<rparr>"

text \<open>
  Modelled from the spec: the library percentage watched as the missing engine reports
  it: hundredths of a percent, as the column \<open>DECIMAL(5,2)\<close> holds them, or the sentinel
  \<open>Unavailable\<close>.
\<close>

datatype library_percentage = Unavailable | Hundredths nat

text \<open>
  Modelled from the spec: for the missing engine, the total library size, supplied when
  the supplementary input is present and carries both counts.
\<close>

definition library_size :: "supplementary option \<Rightarrow> nat option" where
  "library_size supp =
     (case supp of
        None \<Rightarrow> None
      | Some s \<Rightarrow>
          (case libraryMovieCount s of
             None \<Rightarrow> None
           | Some m \<Rightarrow> (case libraryShowCount s of None \<Rightarrow> None | Some n \<Rightarrow> Some (m + n))))"

text \<open>
  Modelled from the spec: for the missing engine, unique titles watched divided by the
  total library size, clamped to 100 percent; the sentinel when no library size is
  supplied. A supplied size of zero gives no percentage either.
\<close>

definition library_percentage_watched :: "nat \<Rightarrow> supplementary option \<Rightarrow> library_percentage" where
  "library_percentage_watched unique_titles supp =
     (case library_size supp of
        None \<Rightarrow> Unavailable
      | Some n \<Rightarrow>
          if n = 0 then Unavailable
          else Hundredths (min 10000 ((unique_titles * 10000) div n)))"

text \<open>
  Modelled from the spec: for the missing engine, the rewatch count, the number of
  distinct movies played at least twice.
\<close>

definition rewatch_count :: "watch_event list \<Rightarrow> nat" where
  "rewatch_count es =
     (let keys = map ratingKey (movies_of es)
      in length (filter (\<lambda>k. 2 \<le> count_list keys k) (remdups keys)))"

subsection \<open>The result (specification, sections 3 and 4.5)\<close>

text \<open>
  Modelled from the spec: for the missing engine, \<open>UserYearStats\<close>, field by
  field under the names of the columns of \<open>user_wrapped_stats\<close>. Optional
  fields are \<open>None\<close> when there is nothing to report. Dates are day numbers
  or timestamps as in the calendar section.
\<close>

record user_year_stats =
  total_watch_time_minutes :: int
  total_plays :: nat
  total_movies :: nat
  total_tv_episodes :: nat
  unique_movies :: nat
  unique_shows :: nat
  days_active :: nat
  most_active_month :: "string option"
  most_active_day_of_week :: "string option"
  most_active_hour :: "int option"
  longest_streak_days :: nat
  longest_binge_minutes :: int
  longest_binge_show :: "string option"
  top_movies :: "int ranked list"
  top_shows :: "string ranked list"
  top_episodes :: "int ranked list"
  top_genres :: "string ranked list"
  top_actors :: "string ranked list"
  top_directors :: "string ranked list"
  top_devices :: "string ranked list"
  top_platforms :: "string ranked list"
  quality_mix :: quality
  percentage_of_days_active :: nat
  percentage_of_library_watched :: library_percentage
  total_seasons_completed :: nat
  rewatches :: nat
  first_watch_title :: "string option"
  first_watch_date :: "int option"
  last_watch_title :: "string option"
  last_watch_date :: "int option"
  most_memorable_day_date :: "int option"
  most_memorable_day_minutes :: "int option"
  fun_facts :: "string list"
  badges :: "string list"
  skipped_malformed_events :: nat

text \<open>
  Modelled from the spec: for the missing engine, the groups of all shows watched,
  unranked.
\<close>

definition show_groups :: "watch_event list \<Rightarrow> string ranked list" where
  "show_groups es =
     map (group_of show_keys key_label show_progress (episodes_of es))
         (first_occurrences (concat (map show_keys (episodes_of es))))"

text \<open>
  Modelled from the spec: for the missing engine, output assembly from the normalized,
  chronological events. The fun facts and badges are filled in afterwards, from the
  assembled stats.
\<close>

definition assemble ::
  "engine_config \<Rightarrow> int \<Rightarrow> supplementary option \<Rightarrow> nat \<Rightarrow> watch_event list \<Rightarrow> user_year_stats" where
  "assemble cfg target supp skipped es =
     (let binge = longest_binge (bingeGapSeconds cfg) es;
          memorable =
            arg_max_first bucket_minutes
              (calendar_buckets (\<lambda>e. day_number (startedAt e)) es);
          uniqueMovies = length (remdups (map ratingKey (movies_of es)));
          uniqueShows = length (show_groups es)
      in \<lparr>total_watch_time_minutes = minutes_of es,
          total_plays = length es,
          total_movies = length (movies_of es),
          total_tv_episodes = length (episodes_of es),
          unique_movies = uniqueMovies,
          unique_shows = uniqueShows,
          days_active = length (active_days es),
          most_active_month =
            map_option (\<lambda>b. month_name (bucket_key b))
              (arg_max_first bucket_minutes (calendar_buckets (\<lambda>e. month_of (startedAt e)) es)),
          most_active_day_of_week =
            map_option (\<lambda>b. weekday_name (bucket_key b))
              (arg_max_first bucket_minutes
                 (calendar_buckets (\<lambda>e. day_of_week (startedAt e)) es)),
          most_active_hour =
            map_option bucket_key
              (arg_max_first bucket_minutes (calendar_buckets (\<lambda>e. hour_of (startedAt e)) es)),
          longest_streak_days = longest_streak es,
          longest_binge_minutes = (case binge of None \<Rightarrow> 0 | Some s \<Rightarrow> minutes_of s),
          longest_binge_show = (case binge of None \<Rightarrow> None | Some s \<Rightarrow> binge_show s),
          top_movies =
            ranking (contentCap cfg) (\<lambda>e. [ratingKey e]) title_label no_progress (movies_of es),
          top_shows =
            ranking (contentCap cfg) show_keys key_label show_progress (episodes_of es),
          top_episodes =
            ranking (contentCap cfg) (\<lambda>e. [ratingKey e]) title_label no_progress (episodes_of es),
          top_genres = ranking (tagCap cfg) (\<lambda>e. remdups (genres e)) key_label no_progress es,
          top_actors = ranking (tagCap cfg) (\<lambda>e. remdups (actors e)) key_label no_progress es,
          top_directors =
            ranking (tagCap cfg) (\<lambda>e. remdups (directors e)) key_label no_progress es,
          top_devices = ranking (contentCap cfg) (\<lambda>e. [playedOn e]) key_label no_progress es,
          top_platforms = ranking (contentCap cfg) (\<lambda>e. [platform e]) key_label no_progress es,
          quality_mix = quality_of es,
          percentage_of_days_active =
            round_percent (int (length (active_days es))) (days_in_year target),
          percentage_of_library_watched =
            library_percentage_watched (uniqueMovies + uniqueShows) supp,
          total_seasons_completed = sum_list (map seasonsCompleted (show_groups es)),
          rewatches = rewatch_count es,
          first_watch_title = map_option title (first_watch es),
          first_watch_date = map_option startedAt (first_watch es),
          last_watch_title = map_option title (last_watch es),
          last_watch_date = map_option startedAt (last_watch es),
          most_memorable_day_date = map_option bucket_key memorable,
          most_memorable_day_minutes = map_option bucket_minutes memorable,
          fun_facts = [],
          badges = [],
          skipped_malformed_events = skipped\<rparr>)"

subsection \<open>Fun facts and badges (specification, section 4.4)\<close>

text \<open>
  Modelled from the spec: for the missing engine, the rule table, an ordered list of
  rules, each with a badge identifier and a predicate-and-template that either produces
  one fact or does not fire. The three rules are the examples the specification names:
  the favourite day of the week, a number of episodes of a single show (twenty or more),
  and the share of plays that were direct plays.
\<close>

record fact_rule =
  badge_id :: string
  fires :: "user_year_stats \<Rightarrow> string option"

text \<open>
  Modelled from the spec: for the missing engine, the rule "watched on day-of-week X
  more than others"; it fires when there is a most active day of the week.
\<close>

definition favourite_day_rule :: fact_rule where
  "favourite_day_rule =
     \<lparr>badge_id = ''creature-of-habit'',
      fires = (\<lambda>s. map_option (\<lambda>day. ''You watched more on '' @ day @ ''s than on any other day'')
                      (most_active_day_of_week s))\<rparr>"

text \<open>
  Modelled from the spec: for the missing engine, the rule "completed N+ episodes of a
  single show", with N = 20; it looks at the top show.
\<close>

definition episodes_rule :: fact_rule where
  "episodes_rule =
     \<lparr>badge_id = ''completionist'',
      fires = (\<lambda>s. case top_shows s of
                     [] \<Rightarrow> None
                   | g # rest \<Rightarrow>
                       if 20 \<le> distinctEpisodes g
                       then Some (''You completed '' @ decimal (distinctEpisodes g)
                                  @ '' episodes of '' @ label g)
                       else None)\<rparr>"

text \<open>
  Modelled from the spec: for the missing engine, the rule "X% of plays were
  direct-play"; it fires when there was a direct play.
\<close>

definition direct_play_rule :: fact_rule where
  "direct_play_rule =
     \<lparr>badge_id = ''purist'',
      fires = (\<lambda>s. if 0 < directPlayPlays (quality_mix s)
                    then Some (decimal (round_percent (int (directPlayPlays (quality_mix s)))
                                          (int (total_plays s)))
                               @ ''% of your plays were direct play'')
                    else None)\<rparr>"

text \<open>Modelled from the spec: the fixed, ordered rule table of the missing engine.\<close>

definition engine_rules :: "fact_rule list" where
  "engine_rules = [favourite_day_rule, episodes_rule, direct_play_rule]"

text \<open>
  Modelled from the spec: for the missing engine, the rules that fire on the computed
  stats, in priority order, each with its badge identifier and its fact; rules that do
  not fire are skipped.
\<close>

definition fired_rules :: "user_year_stats \<Rightarrow> (string \<times> string) list" where
  "fired_rules s =
     List.map_filter (\<lambda>r. map_option (\<lambda>text. (badge_id r, text)) (fires r s)) engine_rules"

text \<open>
  Modelled from the spec: for the missing engine, the stats with at most the capped
  number of fun facts and badges filled in.
\<close>

definition with_facts :: "engine_config \<Rightarrow> user_year_stats \<Rightarrow> user_year_stats" where
  "with_facts cfg s =
     s\<lparr>fun_facts := take (factCap cfg) (map snd (fired_rules s)),
       badges := take (factCap cfg) (map fst (fired_rules s))\<rparr>"

subsection \<open>The engine call\<close>

text \<open>
  Modelled from the spec: for the missing engine, the aggregation engine as a pure
  function of the configuration, the target year, the optional supplementary input and
  the history records of one user. It has no error result: malformed records are
  skipped.
\<close>

definition computeUserYearStats ::
  "engine_config \<Rightarrow> int \<Rightarrow> supplementary option \<Rightarrow> history_record list \<Rightarrow> user_year_stats" where
  "computeUserYearStats cfg target supp records =
     with_facts cfg
       (assemble cfg target supp (skipped_malformed records) (normalize_events target records))"

text \<open>
  Modelled from the spec: for the missing engine, the invariants of section 3 that the
  output is validated against: bounded rankings and fact list, percentages up to 100,
  non-negative minutes.
\<close>

definition valid_stats :: "engine_config \<Rightarrow> user_year_stats \<Rightarrow> bool" where
  "valid_stats cfg s \<longleftrightarrow>
     length (top_movies s) \<le> contentCap cfg \<and> length (top_shows s) \<le> contentCap cfg
     \<and> length (top_episodes s) \<le> contentCap cfg \<and> length (top_genres s) \<le> tagCap cfg
     \<and> length (top_actors s) \<le> tagCap cfg \<and> length (top_directors s) \<le> tagCap cfg
     \<and> length (top_devices s) \<le> contentCap cfg \<and> length (top_platforms s) \<le> contentCap cfg
     \<and> length (fun_facts s) \<le> factCap cfg \<and> length (badges s) \<le> factCap cfg
     \<and> directPlayPercent (quality_mix s) \<le> 100 \<and> directStreamPercent (quality_mix s) \<le> 100
     \<and> transcodePercent (quality_mix s) \<le> 100 \<and> percentage_of_days_active s \<le> 100
     \<and> (case percentage_of_library_watched s of Unavailable \<Rightarrow> True | Hundredths h \<Rightarrow> h \<le> 10000)
     \<and> 0 \<le> total_watch_time_minutes s \<and> 0 \<le> longest_binge_minutes s"

text \<open>
  Modelled from the spec: for the missing engine, the result the specification describes
  for a user-year without events: every counter zero, every ranked list empty, temporal
  fields absent, no fun fact.
\<close>

definition empty_year_stats :: user_year_stats where
  "empty_year_stats =
     \<lparr>total_watch_time_minutes = 0, total_plays = 0, total_movies = 0, total_tv_episodes = 0,
      unique_movies = 0, unique_shows = 0, days_active = 0, most_active_month = None,
      most_active_day_of_week = None, most_active_hour = None, longest_streak_days = 0,
      longest_binge_minutes = 0, longest_binge_show = None, top_movies = [], top_shows = [],
      top_episodes = [], top_genres = [], top_actors = [], top_directors = [],
      top_devices = [], top_platforms = [],
      quality_mix = \<lparr>directPlayPlays = 0, directStreamPlays = 0, transcodePlays = 0,
                      directPlayPercent = 0, directStreamPercent = 0, transcodePercent = 0\<rparr>,
      percentage_of_days_active = 0, percentage_of_library_watched = Unavailable,
      total_seasons_completed = 0, rewatches = 0, first_watch_title = None,
      first_watch_date = None, last_watch_title = None, last_watch_date = None,
      most_memorable_day_date = None, most_memorable_day_minutes = None, fun_facts = [],
      badges = [], skipped_malformed_events = 0\<rparr>"

subsection \<open>From the engine to the store\<close>

text \<open>
  The column \<open>percentage_of_library_watched DECIMAL(5,2) DEFAULT 0\<close> with
  \<open>CHECK (percentage_of_library_watched >= 0 AND percentage_of_library_watched <= 100)\<close>:
  it is nullable, an insert that leaves the column out stores the default, and the
  check passes on \<open>NULL\<close>. Values are hundredths of a percent.
\<close>

datatype 'a column_value = Omitted | Supplied "'a option"

text \<open>
  What the table stores for the column on an insert, by the declaration above.
\<close>

definition store_percentage :: "nat column_value \<Rightarrow> string + nat option" where
  "store_percentage c =
     (case c of
        Omitted \<Rightarrow> Inr (Some 0)
      | Supplied None \<Rightarrow> Inr None
      | Supplied (Some h) \<Rightarrow>
          if h \<le> 10000 then Inr (Some h) else Inl ''violates check constraint'')"

text \<open>
  Modelled from the spec: for the missing engine,
  \<open>UserWrappedStatsModel.create\<close>, which is not among the sources, hands the
  engine's field to the store as it is: the sentinel as an explicit \<open>NULL\<close>,
  a percentage as its value.
\<close>

definition percentage_column :: "library_percentage \<Rightarrow> nat column_value" where
  "percentage_column p =
     (case p of Unavailable \<Rightarrow> Supplied None | Hundredths h \<Rightarrow> Supplied (Some h))"

text \<open>
  Modelled from the spec: the text of a stored percentage as the missing wrapped route
  reports it, such as \<open>0.00\<close> or \<open>12.50\<close>.
\<close>

definition decimal_text :: "nat \<Rightarrow> string" where
  "decimal_text h =
     decimal (h div 100) @ ''.'' @ [digit_char ((h div 10) mod 10), digit_char (h mod 10)]"

text \<open>
  Modelled from the spec: for the missing engine, what is reported for the stored
  column: \<open>null\<close> for \<open>NULL\<close>, the decimal text otherwise.
\<close>

definition reported_percentage :: "nat option \<Rightarrow> string option" where
  "reported_percentage stored = map_option decimal_text stored"

subsection \<open>Inputs for the engine's properties\<close>

text \<open>A movie watched on 2025-01-05 at midnight UTC for half an hour.\<close>

definition sample_movie :: watch_event where
  "sample_movie =
     \<lparr>mediaKind = Movie, ratingKey = 101, title = ''Heat'', showTitle = None,
      seasonNumber = None, episodeNumber = None, releaseYear = Some 1995,
      startedAt = 1736035200, durationWatchedMinutes = 30, playedOn = ''Living Room TV'',
      platform = ''Roku'', playDecision = DirectPlay, resolution = ''1080'',
      genres = [''Crime''], actors = [''Al Pacino''], directors = [''Michael Mann'']\<rparr>"

text \<open>An episode watched the next day.\<close>

definition sample_episode :: watch_event where
  "sample_episode =
     \<lparr>mediaKind = Episode, ratingKey = 202, title = ''Pilot'', showTitle = Some ''Lost'',
      seasonNumber = Some 1, episodeNumber = Some 1, releaseYear = Some 2004,
      startedAt = 1736121600, durationWatchedMinutes = 42, playedOn = ''Phone'',
      platform = ''iOS'', playDecision = Transcode, resolution = ''720'',
      genres = [''Drama''], actors = [], directors = []\<rparr>"

text \<open>
  A record with the rating key and start time of \<open>sample_movie\<close> but twice the
  duration.
\<close>

definition conflicting_movie :: watch_event where
  "conflicting_movie = sample_movie\<lparr>durationWatchedMinutes := 60\<rparr>"

definition some_library :: supplementary where
  "some_library =
     \<lparr>libraryMovieCount = Some 120, libraryShowCount = Some 30, requestCountsByTitle = []\<rparr>"

text \<open>
  What the store holds for a result and what is reported back for it.
\<close>

definition persisted_percentage :: "user_year_stats \<Rightarrow> string + nat option" where
  "persisted_percentage s = store_percentage (percentage_column (percentage_of_library_watched s))"

text \<open>The same movie watched on a given day of January 2025, for ten minutes.\<close>

definition movie_on :: "int \<Rightarrow> int \<Rightarrow> history_record" where
  "movie_on k d =
     Event (sample_movie\<lparr>ratingKey := k, startedAt := 1735689600 + (d - 1) * 86400,
                         durationWatchedMinutes := 10\<rparr>)"

section \<open>Properties of the generation orchestrator\<close>

lemmas io_defs = WrappedGenerationModel_update_def incrementProcessed_def fetch_users_def
  UserWrappedStatsModel_create_def AccessTokenModel_create_def calculator_calculateUserStats_def
  new_StatsCalculator_def tick_def logger_write_def

lemma hist_update:
  "WrappedGenerationModel_update e p w = (r, w') \<Longrightarrow>
     ((\<exists>m. r = Threw m) \<longrightarrow> status_history w' = status_history w \<and> gen w' = gen w) \<and>
     (r = Returned () \<longrightarrow> status_history w' = (case set_status p of None \<Rightarrow> status_history w | Some s \<Rightarrow> status_history w @ [s])
         \<and> gen w' = apply_update p (gen w))"
  by (auto simp: io_defs split: option.splits)

lemma hist_try_user:
  "try_user e yr u s w = (s', r, w') \<Longrightarrow> status_history w' = status_history w \<and> status (gen w') = status (gen w)"
  by (auto simp: try_user_def io_defs Let_def split: option.splits sum.splits prod.splits outcome.splits)

lemma hist_for_users:
  "for_users e yr us s f w = (r, w') \<Longrightarrow> status_history w' = status_history w \<and> status (gen w') = status (gen w)"
proof (induction us arbitrary: s f w)
  case Nil
  then show ?case by simp
next
  case (Cons u us)
  obtain s1 r1 w1 where t: "try_user e yr u s w = (s1, r1, w1)" by (cases "try_user e yr u s w") auto
  note h1 = hist_try_user[OF t]
  show ?case
  proof (cases r1)
    case (Returned x)
    with Cons t h1 show ?thesis by auto
  next
    case (Threw m)
    obtain r2 w2 where i: "incrementProcessed e False (logger_write (Log_failed_user (u_id u) m) w1) = (r2, w2)"
      by (cases "incrementProcessed e False (logger_write (Log_failed_user (u_id u) m) w1)") auto
    then have h2: "status_history w2 = status_history w1 \<and> status (gen w2) = status (gen w1)"
      by (auto simp: io_defs split: option.splits)
    show ?thesis
    proof (cases r2)
      case (Returned y)
      with Cons t Threw i h1 h2 show ?thesis by auto
    next
      case (Threw m')
      with Cons.prems t \<open>r1 = Threw m\<close> i h1 h2 show ?thesis by auto
    qed
  qed
qed

lemma generate_try_cases:
  assumes "generate_try e yr ids w = (r, w')"
  shows "((\<exists>m. r = Threw m) \<and> status_history w' = status_history w \<and> status (gen w') = status (gen w)
            \<and> rejects e Generation_write (clock w) \<noteq> None)
       \<or> ((\<exists>m. r = Threw m) \<and> status_history w' = status_history w @ [Processing] \<and> status (gen w') = Processing)
       \<or> (r = Returned () \<and> status_history w' = status_history w @ [Processing, Completed] \<and> status (gen w') = Completed)"
proof -
  obtain r1 w1 where u1: "WrappedGenerationModel_update e (no_update\<lparr>set_status := Some Processing\<rparr>) w = (r1, w1)"
    by (cases "WrappedGenerationModel_update e (no_update\<lparr>set_status := Some Processing\<rparr>) w") auto
  show ?thesis
  proof (cases r1)
    case (Threw m)
    with u1 assms show ?thesis
      by (auto simp: generate_try_def WrappedGenerationModel_update_def tick_def split: option.splits)
  next
    case (Returned x1)
    with u1 have h1: "status_history w1 = status_history w @ [Processing]" "status (gen w1) = Processing"
      by (auto simp: WrappedGenerationModel_update_def tick_def apply_update_def no_update_def split: option.splits)
    obtain r2 w2 where u2: "fetch_users e ids w1 = (r2, w2)" by (cases "fetch_users e ids w1") auto
    then have h2: "status_history w2 = status_history w1" "status (gen w2) = status (gen w1)"
      by (auto simp: fetch_users_def tick_def split: option.splits)
    show ?thesis
    proof (cases r2)
      case (Threw m)
      with u1 Returned u2 assms h1 h2 show ?thesis by (auto simp: generate_try_def)
    next
      case (Returned users)
      note r2 = this
      obtain r3 w3 where u3: "WrappedGenerationModel_update e (no_update\<lparr>set_total_users := Some (length users)\<rparr>) w2 = (r3, w3)"
        by (cases "WrappedGenerationModel_update e (no_update\<lparr>set_total_users := Some (length users)\<rparr>) w2") auto
      then have h3: "status_history w3 = status_history w2" "status (gen w3) = status (gen w2)"
        by (auto simp: WrappedGenerationModel_update_def tick_def apply_update_def no_update_def split: option.splits)
      show ?thesis
      proof (cases r3)
        case (Threw m)
        with u1 \<open>r1 = Returned x1\<close> u2 r2 u3 assms h1 h2 h3 show ?thesis by (auto simp: generate_try_def)
      next
        case (Returned x3)
        note r3 = this
        obtain r4 w4 where u4: "new_StatsCalculator e w3 = (r4, w4)" by (cases "new_StatsCalculator e w3") auto
        then have h4: "status_history w4 = status_history w3" "status (gen w4) = status (gen w3)"
          by (auto simp: new_StatsCalculator_def tick_def split: option.splits)
        show ?thesis
        proof (cases r4)
          case (Threw m)
          with u1 \<open>r1 = Returned x1\<close> u2 r2 u3 r3 u4 assms h1 h2 h3 h4 show ?thesis by (auto simp: generate_try_def)
        next
          case (Returned x4)
          note r4 = this
          obtain r5 w5 where u5: "for_users e yr users 0 0 w4 = (r5, w5)" by (cases "for_users e yr users 0 0 w4") auto
          from hist_for_users[OF u5] have h5: "status_history w5 = status_history w4" "status (gen w5) = status (gen w4)" by auto
          show ?thesis
          proof (cases r5)
            case (Threw m)
            with u1 \<open>r1 = Returned x1\<close> u2 r2 u3 r3 u4 r4 u5 assms h1 h2 h3 h4 h5 show ?thesis by (auto simp: generate_try_def)
          next
            case (Returned sf)
            note r5 = this
            obtain sc fl where sf: "sf = (sc, fl)" by (cases sf) auto
            obtain r6 w6 where u6: "WrappedGenerationModel_update e
                                      (no_update\<lparr>set_status := Some Completed,
                                                 set_successful_users := Some sc,
                                                 set_failed_users := Some fl\<rparr>) w5 = (r6, w6)"
              by (cases "WrappedGenerationModel_update e
                                      (no_update\<lparr>set_status := Some Completed,
                                                 set_successful_users := Some sc,
                                                 set_failed_users := Some fl\<rparr>) w5") auto
            show ?thesis
            proof (cases r6)
              case (Threw m)
              with u6 have "status_history w6 = status_history w5" "status (gen w6) = status (gen w5)"
                by (auto simp: WrappedGenerationModel_update_def tick_def split: option.splits)
              with Threw u1 \<open>r1 = Returned x1\<close> u2 r2 u3 r3 u4 r4 u5 r5 sf u6 assms h1 h2 h3 h4 h5 show ?thesis
                by (auto simp: generate_try_def)
            next
              case (Returned x6)
              with u6 have "status_history w6 = status_history w5 @ [Completed]" "status (gen w6) = Completed"
                by (auto simp: WrappedGenerationModel_update_def tick_def apply_update_def no_update_def split: option.splits)
              with Returned u1 \<open>r1 = Returned x1\<close> u2 r2 u3 r3 u4 r4 u5 r5 sf u6 assms h1 h2 h3 h4 h5 show ?thesis
                by (auto simp: generate_try_def logger_write_def)
            qed
          qed
        qed
      qed
    qed
  qed
qed

lemma lifecycle_of_run:
  fixes e :: "'s env"
  shows "(let w' = snd (generateWrappedStats e yr ids (started_world gid yr us rows toks)) in
         status_history w' \<in>
           {[Pending], [Pending, Failed], [Pending, Processing],
            [Pending, Processing, Completed], [Pending, Processing, Failed]}
         \<and> status (gen w') = last (status_history w')
         \<and> ((\<forall>t. rejects e Generation_write t = None) \<longrightarrow> status_history w' \<in> lifecycle_histories))"
proof -
  let ?w0 = "started_world gid yr us rows toks :: 's world"
  define w' where "w' = snd (generateWrappedStats e yr ids ?w0)"
  have h0: "status_history ?w0 = [Pending]" "status (gen ?w0) = Pending"
    by (simp_all add: started_world_def new_generation_def)
  obtain r1 w1 where t: "generate_try e yr ids ?w0 = (r1, w1)" by (cases "generate_try e yr ids ?w0") auto
  note c = generate_try_cases[OF t]
  show ?thesis
  proof (cases r1)
    case (Returned x)
    with c t h0 have "status_history w' = [Pending, Processing, Completed]" "status (gen w') = Completed"
      by (auto simp: w'_def generateWrappedStats_def)
    then show ?thesis
      unfolding Let_def w'_def[symmetric] by (simp add: lifecycle_histories_def)
  next
    case (Threw m)
    let ?wl = "logger_write (Log_generation_failed (gen_id (gen w1)) m) w1"
    obtain r2 w2 where u: "WrappedGenerationModel_update e (no_update\<lparr>set_status := Some Failed, set_error_log := Some m\<rparr>) ?wl = (r2, w2)"
      by (cases "WrappedGenerationModel_update e (no_update\<lparr>set_status := Some Failed, set_error_log := Some m\<rparr>) ?wl") auto
    have w': "w' = w2" using t Threw u by (simp add: w'_def generateWrappedStats_def)
    have hl: "status_history ?wl = status_history w1" "status (gen ?wl) = status (gen w1)" "clock ?wl = clock w1"
      by (simp_all add: logger_write_def)
    from u hl have k: "(status_history w2 = status_history w1 \<and> status (gen w2) = status (gen w1) \<and> rejects e Generation_write (clock w1) \<noteq> None)
           \<or> (status_history w2 = status_history w1 @ [Failed] \<and> status (gen w2) = Failed)"
      by (auto simp: WrappedGenerationModel_update_def tick_def apply_update_def no_update_def split: option.splits)
    from c Threw k h0 show ?thesis
      unfolding Let_def w'_def[symmetric] unfolding w' lifecycle_histories_def by auto
  qed
qed

text \<open>
  C4 (amended). The status history of a generation record starts at pending and is one
  of: pending; pending, failed; pending, processing; pending, processing, completed;
  pending, processing, failed. So the status is never anything but pending, processing,
  completed or failed, at most one of completed and failed is ever written and nothing
  follows it, and the stored status is the last value of the history. Processing is
  skipped only when the write that sets it rejects. When no write to the generations
  table rejects, the history is exactly pending, processing and then one of completed or
  failed. The engine call changes neither the record nor its history.
\<close>

theorem generation_lifecycle:
  fixes e :: "'s env"
  shows "(let w' = snd (generateWrappedStats e yr ids (started_world gid yr us rows toks)) in
         status_history w' \<in>
           {[Pending], [Pending, Failed], [Pending, Processing],
            [Pending, Processing, Completed], [Pending, Processing, Failed]}
         \<and> status (gen w') = last (status_history w')
         \<and> ((\<forall>t. rejects e Generation_write t = None) \<longrightarrow> status_history w' \<in> lifecycle_histories))
         \<and> gen (snd (calculator_calculateUserStats e plex yr w)) = gen w
         \<and> status_history (snd (calculator_calculateUserStats e plex yr w)) = status_history w"
proof -
  have "gen (snd (calculator_calculateUserStats e plex yr w)) = gen w"
    "status_history (snd (calculator_calculateUserStats e plex yr w)) = status_history w"
    by (simp_all add: calculator_calculateUserStats_def tick_def split: sum.splits)
  with lifecycle_of_run[of e yr ids gid us rows toks] show ?thesis by blast
qed

theorem generation_lifecycle_witness:
  "(\<forall>t. rejects calm_env Generation_write t = None)
   \<and> status_history (snd (generateWrappedStats calm_env 2025 None
         (started_world 7 2025 three_users [] []))) \<in> lifecycle_histories"
proof -
  have h: "\<forall>t. rejects calm_env Generation_write t = None"
    by (simp add: calm_env_def)
  from generation_lifecycle[of calm_env 2025 None 7 three_users "[]" "[]"] h
  show ?thesis by (simp add: Let_def)
qed

text \<open>
  C4 as stated fails: when the update that sets \<open>processing\<close> rejects and the update in
  the \<open>catch\<close> block resolves, the record goes from pending straight to failed.
\<close>

theorem generation_lifecycle_counterexample:
  "status_history (snd (generateWrappedStats write_failure_env 2025 None
       (started_world 7 2025 three_users [] []))) = [Pending, Failed]
   \<and> [Pending, Failed] \<notin> lifecycle_histories"
  by (simp add: generateWrappedStats_def generate_try_def write_failure_env_def started_world_def
      WrappedGenerationModel_update_def tick_def logger_write_def apply_update_def no_update_def
      new_generation_def lifecycle_histories_def)










text \<open>
  When it is the \<open>incrementProcessed(generationId, true)\<close> of a user whose stats and
  token were stored that rejects, the \<open>catch\<close> block logs the user as failed and both
  local counters have counted the user: the completed record reports three successful
  and one failed user of three, and the first user is recorded as failed with the stats
  row stored.
\<close>

lemma counter_write_failure_counts_twice:
  "user_outcomes (logger (snd (generateWrappedStats counter_failure_env 2025 None
          (started_world 7 2025 three_users [] [])))) = [(1, False), (2, True), (3, True)]
   \<and> map user_id (user_wrapped_stats (snd (generateWrappedStats counter_failure_env 2025 None
          (started_world 7 2025 three_users [] [])))) = [1, 2, 3]
   \<and> successful_users (gen (snd (generateWrappedStats counter_failure_env 2025 None
          (started_world 7 2025 three_users [] [])))) = 3
   \<and> failed_users (gen (snd (generateWrappedStats counter_failure_env 2025 None
          (started_world 7 2025 three_users [] [])))) = 1"
  by code_simp

lemma replace_keeps_keys:
  assumes "user_id r' = uid" "year r' = yr"
  shows "map (\<lambda>r. (user_id r, year r)) (map (\<lambda>x. if same_user_year uid yr x then r' else x) rows)
         = map (\<lambda>r. (user_id r, year r)) rows"
  using assms by (induction rows) (auto simp: same_user_year_def)

lemma stats_insert_unique:
  assumes "user_year_unique rows" and "stats_insert pol r rows = Inr (r', rows')"
  shows "user_year_unique rows'"
proof (cases "find (same_user_year (user_id r) (year r)) rows")
  case None
  then have "\<forall>x \<in> set rows. \<not> same_user_year (user_id r) (year r) x"
    by (simp add: find_None_iff)
  then have k: "(user_id r, year r) \<notin> set (map (\<lambda>r. (user_id r, year r)) rows)"
    by (auto simp: same_user_year_def)
  from assms(2) None have "rows' = rows @ [r\<lparr>s_id := next_stats_id rows\<rparr>]"
    by (auto simp: stats_insert_def Let_def split: if_splits)
  with assms(1) k show ?thesis
    by (simp add: user_year_unique_def)
next
  case (Some old)
  with assms(2) have "rows' = map (\<lambda>x. if same_user_year (user_id r) (year r) x then r\<lparr>s_id := s_id old\<rparr> else x) rows"
    by (auto simp: stats_insert_def Let_def split: if_splits conflict_policy.splits)
  then have "map (\<lambda>r. (user_id r, year r)) rows' = map (\<lambda>r. (user_id r, year r)) rows"
    using replace_keeps_keys[of "r\<lparr>s_id := s_id old\<rparr>" "user_id r" "year r" rows] by simp
  with assms(1) show ?thesis by (simp add: user_year_unique_def)
qed

lemma stats_insert_rejects_duplicate:
  assumes "\<exists>x \<in> set rows. user_id x = user_id r \<and> year x = year r"
  shows "\<exists>m. stats_insert Reject r rows = Inl m"
proof -
  from assms have "\<exists>x. x \<in> set rows \<and> same_user_year (user_id r) (year r) x"
    by (auto simp: same_user_year_def)
  then have "find (same_user_year (user_id r) (year r)) rows \<noteq> None"
    by (simp add: find_None_iff)
  then obtain old where "find (same_user_year (user_id r) (year r)) rows = Some old" by auto
  then show ?thesis by (simp add: stats_insert_def)
qed

lemma create_unique:
  assumes "UserWrappedStatsModel_create e uid gid yr st w = (r, w')" "user_year_unique (user_wrapped_stats w)"
  shows "user_year_unique (user_wrapped_stats w')"
proof (cases "rejects e Stats_write (clock w)")
  case (Some m)
  with assms show ?thesis by (auto simp: UserWrappedStatsModel_create_def tick_def)
next
  case None
  let ?row = "\<lparr>s_id = 0, user_id = uid, generation_id = gid, year = yr, row_stats = st\<rparr>"
  show ?thesis
  proof (cases "stats_insert (on_conflict e) ?row (user_wrapped_stats w)")
    case (Inl m)
    with None assms show ?thesis by (auto simp: UserWrappedStatsModel_create_def tick_def)
  next
    case (Inr p)
    obtain saved rows' where p: "p = (saved, rows')" by (cases p) auto
    from stats_insert_unique[OF assms(2) Inr[unfolded p]] have "user_year_unique rows'" .
    with None Inr p assms(1) show ?thesis by (auto simp: UserWrappedStatsModel_create_def tick_def)
  qed
qed

lemma keeps_stats:
  "calculator_calculateUserStats e plex yr w = (rc, wc) \<Longrightarrow> user_wrapped_stats wc = user_wrapped_stats w"
  "AccessTokenModel_create e t w = (rt, wt) \<Longrightarrow> user_wrapped_stats wt = user_wrapped_stats w"
  "incrementProcessed e b w = (ri, wi) \<Longrightarrow> user_wrapped_stats wi = user_wrapped_stats w"
  "WrappedGenerationModel_update e p w = (ru, wu) \<Longrightarrow> user_wrapped_stats wu = user_wrapped_stats w"
  "fetch_users e ids w = (rf, wfe) \<Longrightarrow> user_wrapped_stats wfe = user_wrapped_stats w"
  "new_StatsCalculator e w = (rn, wn) \<Longrightarrow> user_wrapped_stats wn = user_wrapped_stats w"
  "user_wrapped_stats (logger_write l w) = user_wrapped_stats w"
  by (auto simp: io_defs split: option.splits sum.splits)

lemma try_user_unique:
  assumes "try_user e yr u s w = (s', r, w')" and uq: "user_year_unique (user_wrapped_stats w)"
  shows "user_year_unique (user_wrapped_stats w')"
proof -
  let ?w = "logger_write (Log_processing (u_id u)) w"
  obtain r1 w1 where c1: "calculator_calculateUserStats e (plex_user_id u) yr ?w = (r1, w1)"
    by (cases "calculator_calculateUserStats e (plex_user_id u) yr ?w") auto
  have u1: "user_year_unique (user_wrapped_stats w1)" using keeps_stats(1)[OF c1] keeps_stats(7) uq by metis
  show ?thesis
  proof (cases r1)
    case (Threw m)
    with assms(1) c1 u1 show ?thesis by (auto simp: try_user_def Let_def)
  next
    case (Returned st)
    note r1 = this
    obtain r2 w2 where c2: "UserWrappedStatsModel_create e (u_id u) (gen_id (gen w1)) yr st w1 = (r2, w2)"
      by (cases "UserWrappedStatsModel_create e (u_id u) (gen_id (gen w1)) yr st w1") auto
    note u2 = create_unique[OF c2 u1]
    show ?thesis
    proof (cases r2)
      case (Threw m)
      with assms(1) c1 r1 c2 u2 show ?thesis by (auto simp: try_user_def Let_def)
    next
      case (Returned saved)
      note r2 = this
      let ?t = "\<lparr>user_wrapped_stats_id = s_id saved, t_user_id = u_id u, t_year = yr, created_by = ''generation''\<rparr>"
      obtain r3 w3 where c3: "AccessTokenModel_create e ?t w2 = (r3, w3)"
        by (cases "AccessTokenModel_create e ?t w2") auto
      have u3: "user_year_unique (user_wrapped_stats w3)" using keeps_stats(2)[OF c3] u2 by simp
      show ?thesis
      proof (cases r3)
        case (Threw m)
        with assms(1) c1 r1 c2 r2 c3 u3 show ?thesis by (auto simp: try_user_def Let_def)
      next
        case (Returned x3)
        note r3 = this
        obtain r4 w4 where c4: "incrementProcessed e True w3 = (r4, w4)"
          by (cases "incrementProcessed e True w3") auto
        have u4: "user_year_unique (user_wrapped_stats w4)" using keeps_stats(3)[OF c4] u3 by simp
        then have u4': "user_year_unique (user_wrapped_stats (logger_write (Log_processed (u_id u)) w4))"
          by (simp add: keeps_stats(7))
        from assms(1) c1 r1 c2 r2 c3 r3 c4 u4 u4' show ?thesis
          by (cases r4) (auto simp: try_user_def Let_def)
      qed
    qed
  qed
qed

lemma for_users_unique:
  "for_users e yr us s f w = (r, w') \<Longrightarrow> user_year_unique (user_wrapped_stats w) \<Longrightarrow>
   user_year_unique (user_wrapped_stats w')"
proof (induction us arbitrary: s f w)
  case Nil
  then show ?case by simp
next
  case (Cons u us)
  obtain s1 r1 w1 where t: "try_user e yr u s w = (s1, r1, w1)" by (cases "try_user e yr u s w") auto
  note h1 = try_user_unique[OF t Cons.prems(2)]
  show ?case
  proof (cases r1)
    case (Returned x)
    with Cons t h1 show ?thesis by auto
  next
    case (Threw m)
    obtain r2 w2 where i: "incrementProcessed e False (logger_write (Log_failed_user (u_id u) m) w1) = (r2, w2)"
      by (cases "incrementProcessed e False (logger_write (Log_failed_user (u_id u) m) w1)") auto
    have h2: "user_year_unique (user_wrapped_stats w2)"
      using keeps_stats(3)[OF i] h1 by (simp add: keeps_stats(7))
    show ?thesis
    proof (cases r2)
      case (Returned y)
      with Cons t Threw i h2 show ?thesis by auto
    next
      case (Threw m')
      with Cons.prems t \<open>r1 = Threw m\<close> i h2 show ?thesis by auto
    qed
  qed
qed

lemma generate_try_unique:
  assumes g: "generate_try e yr ids w = (r, w')" and uq: "user_year_unique (user_wrapped_stats w)"
  shows "user_year_unique (user_wrapped_stats w')"
proof -
  obtain r1 w1 where c1: "WrappedGenerationModel_update e (no_update\<lparr>set_status := Some Processing\<rparr>) w = (r1, w1)"
    by (cases "WrappedGenerationModel_update e (no_update\<lparr>set_status := Some Processing\<rparr>) w") auto
  have u1: "user_year_unique (user_wrapped_stats w1)" using keeps_stats(4)[OF c1] uq by simp
  show ?thesis
  proof (cases r1)
    case (Threw m)
    with g c1 u1 show ?thesis by (auto simp: generate_try_def)
  next
    case (Returned x1)
    note r1 = this
    obtain r2 w2 where c2: "fetch_users e ids w1 = (r2, w2)" by (cases "fetch_users e ids w1") auto
    have u2: "user_year_unique (user_wrapped_stats w2)" using keeps_stats(5)[OF c2] u1 by simp
    show ?thesis
    proof (cases r2)
      case (Threw m)
      with g c1 r1 c2 u2 show ?thesis by (auto simp: generate_try_def)
    next
      case (Returned users)
      note r2 = this
      obtain r3 w3 where c3: "WrappedGenerationModel_update e (no_update\<lparr>set_total_users := Some (length users)\<rparr>) w2 = (r3, w3)"
        by (cases "WrappedGenerationModel_update e (no_update\<lparr>set_total_users := Some (length users)\<rparr>) w2") auto
      have u3: "user_year_unique (user_wrapped_stats w3)" using keeps_stats(4)[OF c3] u2 by simp
      show ?thesis
      proof (cases r3)
        case (Threw m)
        with g c1 r1 c2 r2 c3 u3 show ?thesis by (auto simp: generate_try_def)
      next
        case (Returned x3)
        note r3 = this
        obtain r4 w4 where c4: "new_StatsCalculator e w3 = (r4, w4)" by (cases "new_StatsCalculator e w3") auto
        have u4: "user_year_unique (user_wrapped_stats w4)" using keeps_stats(6)[OF c4] u3 by simp
        show ?thesis
        proof (cases r4)
          case (Threw m)
          with g c1 r1 c2 r2 c3 r3 c4 u4 show ?thesis by (auto simp: generate_try_def)
        next
          case (Returned x4)
          note r4 = this
          obtain r5 w5 where c5: "for_users e yr users 0 0 w4 = (r5, w5)" by (cases "for_users e yr users 0 0 w4") auto
          note u5 = for_users_unique[OF c5 u4]
          show ?thesis
          proof (cases r5)
            case (Threw m)
            with g c1 r1 c2 r2 c3 r3 c4 r4 c5 u5 show ?thesis by (auto simp: generate_try_def)
          next
            case (Returned sf)
            note r5 = this
            obtain sc fl where sf: "sf = (sc, fl)" by (cases sf) auto
            let ?p = "no_update\<lparr>set_status := Some Completed, set_successful_users := Some sc, set_failed_users := Some fl\<rparr>"
            obtain r6 w6 where c6: "WrappedGenerationModel_update e ?p w5 = (r6, w6)"
              by (cases "WrappedGenerationModel_update e ?p w5") auto
            have u6: "user_year_unique (user_wrapped_stats w6)" using keeps_stats(4)[OF c6] u5 by simp
            then have "user_year_unique (user_wrapped_stats (logger_write (Log_completed (gen_id (gen w6)) sc fl) w6))"
              by (simp add: keeps_stats(7))
            with g c1 r1 c2 r2 c3 r3 c4 r4 c5 r5 sf c6 u6 show ?thesis
              by (cases r6) (auto simp: generate_try_def)
          qed
        qed
      qed
    qed
  qed
qed

text \<open>
  C3. A table with at most one row per (user, year) still has at most one row per
  (user, year) after a whole run of the job, for every environment, every list of user
  ids (repeated ids included) and both forms of the insert. The store is what keeps it:
  every accepted insert preserves the property whatever row the caller hands over, and a
  plain insert of a (user, year) that is already stored is rejected.
\<close>

theorem at_most_one_row_per_user_year:
  fixes e :: "'s env"
  shows "(user_year_unique (user_wrapped_stats w) \<longrightarrow>
            user_year_unique (user_wrapped_stats (snd (generateWrappedStats e yr ids w))))
         \<and> (user_year_unique rows \<longrightarrow> stats_insert pol r rows = Inr (r', rows') \<longrightarrow> user_year_unique rows')
         \<and> ((\<exists>x \<in> set rows. user_id x = user_id r \<and> year x = year r) \<longrightarrow>
              (\<exists>m. stats_insert Reject r rows = Inl m))"
proof -
  have "user_year_unique (user_wrapped_stats (snd (generateWrappedStats e yr ids w)))"
    if u: "user_year_unique (user_wrapped_stats w)"
  proof -
    obtain r1 w1 where t: "generate_try e yr ids w = (r1, w1)" by (cases "generate_try e yr ids w") auto
    note h = generate_try_unique[OF t u]
    show ?thesis
    proof (cases r1)
      case (Returned x)
      with t h show ?thesis by (simp add: generateWrappedStats_def)
    next
      case (Threw m)
      let ?wl = "logger_write (Log_generation_failed (gen_id (gen w1)) m) w1"
      obtain r2 w2 where u2: "WrappedGenerationModel_update e (no_update\<lparr>set_status := Some Failed, set_error_log := Some m\<rparr>) ?wl = (r2, w2)"
        by (cases "WrappedGenerationModel_update e (no_update\<lparr>set_status := Some Failed, set_error_log := Some m\<rparr>) ?wl") auto
      from keeps_stats(4)[OF u2] have "user_wrapped_stats w2 = user_wrapped_stats w1"
        by (simp add: keeps_stats(7))
      with t Threw u2 h show ?thesis by (simp add: generateWrappedStats_def)
    qed
  qed
  moreover have "user_year_unique rows \<longrightarrow> stats_insert pol r rows = Inr (r', rows') \<longrightarrow> user_year_unique rows'"
    using stats_insert_unique by blast
  moreover have "(\<exists>x \<in> set rows. user_id x = user_id r \<and> year x = year r) \<longrightarrow>
              (\<exists>m. stats_insert Reject r rows = Inl m)"
    using stats_insert_rejects_duplicate by blast
  ultimately show ?thesis by blast
qed

theorem at_most_one_row_per_user_year_witness:
  "user_year_unique (user_wrapped_stats (started_world 7 2025 three_users [earlier_row] [] :: unit world))
   \<and> user_year_unique [earlier_row]
   \<and> stats_insert Replace later_row [earlier_row] = Inr (later_row\<lparr>s_id := 1\<rparr>, [later_row\<lparr>s_id := 1\<rparr>])
   \<and> (\<exists>x \<in> set [earlier_row]. user_id x = user_id later_row \<and> year x = year later_row)
   \<and> user_year_unique (user_wrapped_stats (snd (generateWrappedStats calm_env 2025 (Some [1, 1])
         (started_world 7 2025 three_users [earlier_row] []))))
   \<and> user_year_unique [later_row\<lparr>s_id := 1\<rparr>]
   \<and> (\<exists>m. stats_insert Reject later_row [earlier_row] = Inl m)"
proof -
  have h1: "user_year_unique (user_wrapped_stats (started_world 7 2025 three_users [earlier_row] [] :: unit world))"
    by (simp add: started_world_def user_year_unique_def)
  have h2: "user_year_unique [earlier_row]"
    by (simp add: user_year_unique_def)
  have h3: "stats_insert Replace later_row [earlier_row] = Inr (later_row\<lparr>s_id := 1\<rparr>, [later_row\<lparr>s_id := 1\<rparr>])"
    by (simp add: stats_insert_def earlier_row_def later_row_def same_user_year_def Let_def)
  have h4: "\<exists>x \<in> set [earlier_row]. user_id x = user_id later_row \<and> year x = year later_row"
    by (simp add: earlier_row_def later_row_def)
  from at_most_one_row_per_user_year[of "started_world 7 2025 three_users [earlier_row] []"
         calm_env 2025 "Some [1, 1]" "[earlier_row]" Replace later_row
         "later_row\<lparr>s_id := 1\<rparr>" "[later_row\<lparr>s_id := 1\<rparr>]"] h1 h2 h3 h4
  show ?thesis by blast
qed

section \<open>Properties of the translation service\<close>

lemma split_on_not_Nil: "split_on d s \<noteq> []"
  by (induction s) (auto split: list.splits)

lemma navigate_resolve: "navigate ks v = Inr (resolve v ks)"
proof (induction ks arbitrary: v)
  case Nil
  then show ?case by simp
next
  case (Cons k ks)
  show ?case
  proof (cases v)
    case (Arr xs)
    with Cons show ?thesis by (auto split: option.splits)
  next
    case (Obj ps)
    with Cons show ?thesis by (auto split: option.splits)
  qed (simp_all)
qed

lemma resolve_falsy: "\<not> truthy v \<Longrightarrow> ks \<noteq> [] \<Longrightarrow> resolve v ks = None"
  by (cases v; cases ks) auto

lemma translate_resolve:
  "translate tr key (Some loc) params =
     (case resolve (selected_table tr loc) (split_on CHR ''.'' key) of
        Some (Str s) \<Rightarrow> (case params of Some ps \<Rightarrow> interpolate s ps | None \<Rightarrow> Inr s)
      | _ \<Rightarrow> Inr key)"
proof (cases "truthy (selected_table tr loc)")
  case False
  then show ?thesis
    using resolve_falsy[OF False split_on_not_Nil, of "CHR ''.''" key]
    by (simp add: translate_def)
next
  case True
  then show ?thesis
    by (simp add: translate_def navigate_resolve split: option.splits jsval.splits)
qed

lemma translate_omitted_locale:
  "translate tr key None params = translate tr key (Some defaultLocale) params"
  by (simp add: translate_def)

lemma selected_table_loaded:
  "tr l = Some tbl \<Longrightarrow> truthy tbl \<Longrightarrow> selected_table tr l = tbl"
  by (simp add: selected_table_def)

lemma selected_table_fallback:
  "tr l = None \<or> (\<exists>v. tr l = Some v \<and> \<not> truthy v) \<Longrightarrow>
     selected_table tr l = (case tr defaultLocale of None \<Rightarrow> Undefined | Some v \<Rightarrow> v)"
  by (auto simp: selected_table_def)

lemma selected_table_default:
  "selected_table tr defaultLocale = (case tr defaultLocale of None \<Rightarrow> Undefined | Some v \<Rightarrow> v)"
  by (auto simp: selected_table_def Let_def)

lemma interpolate_convertible:
  assumes "\<forall>k. ps k = Absent \<or> (\<exists>s. ps k = Converts s)"
  shows "\<exists>r. interpolate s ps = Inr r"
proof (induction s rule: length_induct)
  case (1 s)
  show ?case
  proof (cases s)
    case Nil
    then show ?thesis by simp
  next
    case (Cons c cs)
    let ?word = "takeWhile is_word_char cs" and ?rest = "dropWhile is_word_char cs"
    have "length cs < length s" using Cons by simp
    with 1 obtain r1 where r1: "interpolate cs ps = Inr r1" by blast
    have "length ?rest \<le> length cs" by (rule length_dropWhile_le)
    then have "length (tl ?rest) < length s" using Cons by simp
    with 1 obtain r2 where r2: "interpolate (tl ?rest) ps = Inr r2" by blast
    from assms have "ps ?word = Absent \<or> (\<exists>s. ps ?word = Converts s)" ..
    then obtain v where v: "replacement (c # ?word @ [CHR ''}'']) (ps ?word) = Inr v"
      by (auto simp: replacement_def)
    show ?thesis
      unfolding Cons using r1 r2 v by (auto simp: Let_def)
  qed
qed

text \<open>
  C8 (amended). For every loaded-table map, key and locale, and for every parameter
  object whose properties can be read and converted to strings (as every string, number,
  boolean, \<open>null\<close> and ordinary object can), \<open>translate\<close> returns a string and does not
  throw. An omitted locale is the default locale. When the requested locale has no
  usable table the answer is the one for the default locale, and when the default locale
  has none either the answer is the key. When the requested locale has a table, that
  table is the one consulted: if the dot-separated key does not resolve to a string in
  it the answer is the key itself, whatever the parameters, and if it resolves to a string
  the answer is that string, interpolated when parameters were given. Interpolation is
  the one step that can throw, on a parameter that cannot be read or converted.
\<close>

theorem translate_total:
  "(convertible params \<longrightarrow> (\<exists>s. translate tr key lc params = Inr s))
   \<and> translate tr key None params = translate tr key (Some defaultLocale) params
   \<and> (tr l = None \<or> (\<exists>v. tr l = Some v \<and> \<not> truthy v) \<longrightarrow>
        translate tr key (Some l) params = translate tr key (Some defaultLocale) params)
   \<and> (tr defaultLocale = None \<or> (\<exists>v. tr defaultLocale = Some v \<and> \<not> truthy v) \<longrightarrow>
        translate tr key (Some defaultLocale) params = Inr key)
   \<and> (\<forall>tbl. tr l = Some tbl \<and> truthy tbl \<longrightarrow>
        translate tr key (Some l) params =
          (case resolve tbl (split_on CHR ''.'' key) of
             Some (Str s) \<Rightarrow> (case params of Some ps \<Rightarrow> interpolate s ps | None \<Rightarrow> Inr s)
           | _ \<Rightarrow> Inr key))"
proof -
  have total_at: "\<exists>s. translate tr key (Some loc) params = Inr s" if "convertible params" for loc
  proof (cases "resolve (selected_table tr loc) (split_on CHR ''.'' key)")
    case None
    then show ?thesis by (simp add: translate_resolve)
  next
    case (Some v)
    show ?thesis
    proof (cases v)
      case (Str s)
      show ?thesis
      proof (cases params)
        case None
        with Some Str show ?thesis by (simp add: translate_resolve)
      next
        case (Some ps)
        with that have "\<forall>k. ps k = Absent \<or> (\<exists>s. ps k = Converts s)"
          by (simp add: convertible_def)
        from interpolate_convertible[OF this, of s] obtain r where "interpolate s ps = Inr r" ..
        with \<open>resolve (selected_table tr loc) (split_on CHR ''.'' key) = Some v\<close> Str Some
        show ?thesis by (simp add: translate_resolve)
      qed
    qed (use Some in \<open>simp_all add: translate_resolve\<close>)
  qed
  have a: "convertible params \<longrightarrow> (\<exists>s. translate tr key lc params = Inr s)"
    using total_at by (cases lc) (simp_all add: translate_omitted_locale)
  have b: "tr l = None \<or> (\<exists>v. tr l = Some v \<and> \<not> truthy v) \<longrightarrow>
        translate tr key (Some l) params = translate tr key (Some defaultLocale) params"
    by (auto simp: translate_resolve selected_table_fallback selected_table_default)
  have falsy: "resolve (case tr defaultLocale of None \<Rightarrow> Undefined | Some v \<Rightarrow> v)
                 (split_on CHR ''.'' key) = None"
    if "tr defaultLocale = None \<or> (\<exists>v. tr defaultLocale = Some v \<and> \<not> truthy v)"
    using that by (auto intro!: resolve_falsy split_on_not_Nil)
  have c: "tr defaultLocale = None \<or> (\<exists>v. tr defaultLocale = Some v \<and> \<not> truthy v) \<longrightarrow>
        translate tr key (Some defaultLocale) params = Inr key"
    using falsy by (simp add: translate_resolve selected_table_default)
  have d: "\<forall>tbl. tr l = Some tbl \<and> truthy tbl \<longrightarrow>
        translate tr key (Some l) params =
          (case resolve tbl (split_on CHR ''.'' key) of
             Some (Str s) \<Rightarrow> (case params of Some ps \<Rightarrow> interpolate s ps | None \<Rightarrow> Inr s)
           | _ \<Rightarrow> Inr key)"
    by (simp add: translate_resolve selected_table_loaded)
  from a b c d show ?thesis by (simp only: translate_omitted_locale) 
qed

lemma interpolate_subject:
  "interpolate ''Your {year} Unwrapped is here, {name}!'' sample_params
     = Inr ''Your 2025 Unwrapped is here, {name}!''"
  by code_simp

theorem translate_total_witness:
  "convertible (Some sample_params)
   \<and> sample_translations ''fr'' = None
   \<and> translate sample_translations ''email.subject'' (Some ''fr'') (Some sample_params)
       = Inr ''Your 2025 Unwrapped is here, {name}!''
   \<and> sample_translations ''sl'' = Some sl_table \<and> truthy sl_table
   \<and> resolve sl_table (split_on CHR ''.'' ''email.subject'') = None
   \<and> translate sample_translations ''email.subject'' (Some ''sl'') (Some sample_params)
       = Inr ''email.subject''
   \<and> translate sample_translations ''email.title'' (Some ''sl'') (Some sample_params)
       = Inr ''Pozdravljeni''"
proof -
  have h0: "convertible (Some sample_params)"
    by (simp add: convertible_def sample_params_def)
  have h1: "sample_translations ''fr'' = None"
    by (simp add: sample_translations_def)
  have h2: "sample_translations defaultLocale = Some en_table" "truthy en_table"
    by (simp_all add: sample_translations_def defaultLocale_def en_table_def)
  have h3: "sample_translations ''sl'' = Some sl_table" "truthy sl_table"
    by (simp_all add: sample_translations_def sl_table_def)
  have r1: "resolve en_table (split_on CHR ''.'' ''email.subject'')
              = Some (Str ''Your {year} Unwrapped is here, {name}!'')"
    by (simp add: en_table_def)
  have r2: "resolve sl_table (split_on CHR ''.'' ''email.subject'') = None"
    by (simp add: sl_table_def)
  have r3: "resolve sl_table (split_on CHR ''.'' ''email.title'') = Some (Str ''Pozdravljeni'')"
    by (simp add: sl_table_def)
  note fr = translate_total[of "Some sample_params" sample_translations "''email.subject''" None "''fr''"]
  note en = translate_total[of "Some sample_params" sample_translations "''email.subject''" None defaultLocale]
  note sl = translate_total[of "Some sample_params" sample_translations "''email.subject''" None "''sl''"]
  note sl' = translate_total[of "Some sample_params" sample_translations "''email.title''" None "''sl''"]
  from en h2 r1 have v_en: "translate sample_translations ''email.subject'' (Some defaultLocale)
      (Some sample_params) = Inr ''Your 2025 Unwrapped is here, {name}!''"
    by (simp add: interpolate_subject del: interpolate.simps)
  from fr h1 v_en have v_fr: "translate sample_translations ''email.subject'' (Some ''fr'')
      (Some sample_params) = Inr ''Your 2025 Unwrapped is here, {name}!''"
    by simp
  from sl h3 r2 have v_sl: "translate sample_translations ''email.subject'' (Some ''sl'')
      (Some sample_params) = Inr ''email.subject''"
    by simp
  have i2: "interpolate ''Pozdravljeni'' sample_params = Inr ''Pozdravljeni''"
    by code_simp
  from sl' h3 r3 have v_sl': "translate sample_translations ''email.title'' (Some ''sl'')
      (Some sample_params) = Inr ''Pozdravljeni''"
    by (simp add: i2 del: interpolate.simps)
  from h0 h1 h3 r2 v_fr v_sl v_sl' show ?thesis by blast
qed

text \<open>
  C8 as stated fails: with the parameter object
  \<open>{ year: 2025, name: Object.create(null) }\<close> the subject line, which has a
  placeholder \<open>{name}\<close>, makes \<open>String(params[key])\<close> throw a \<open>TypeError\<close>, and
  \<open>translate\<close> throws instead of returning a string.
\<close>

theorem translate_total_counterexample:
  "translate sample_translations ''email.subject'' (Some ''en'') (Some bare_object_params)
     = Inl (TypeError ''Cannot convert object to primitive value'')
   \<and> translate sample_translations ''email.subject'' None (Some bare_object_params)
     = Inl (TypeError ''Cannot convert object to primitive value'')
   \<and> translate sample_translations ''email.subject'' (Some ''en'') (Some sample_params)
     = Inr ''Your 2025 Unwrapped is here, {name}!''"
  by code_simp

section \<open>Properties of the frontend locale selection\<close>

lemma first_supported_member:
  assumes "default_locale lib \<in> set (locales lib)"
  shows "first_supported lib vs \<in> set (locales lib)"
proof (cases "find (\<lambda>v. v \<in> set (locales lib)) vs")
  case None
  with assms show ?thesis by (simp add: first_supported_def)
next
  case (Some l)
  then have "l \<in> set (locales lib)" by (auto simp: find_Some_iff)
  with Some show ?thesis by (simp add: first_supported_def)
qed

lemma determineLocale_cases:
  assumes "default_locale lib \<in> set (locales lib)" and "[] \<notin> set (locales lib)"
  shows "determineLocale lib searchParams win =
           (if storage_denied win \<and> \<not> url_lang_supported lib searchParams then Inl SecurityError
            else Inr (first_supported lib (offered searchParams win)))"
proof (cases win)
  case None
  with assms show ?thesis
    by (auto simp: determineLocale_def getLocaleFromURL_def getLocaleFromStorage_def
          getLocaleFromBrowser_def first_supported_def offered_def storage_denied_def
          url_lang_supported_def split: option.splits)
next
  case (Some w)
  show ?thesis
  proof (cases "preferredLanguage w")
    case (Inl err)
    have "err = SecurityError" by (cases err) simp
    with Some Inl assms show ?thesis
      by (auto simp: determineLocale_def getLocaleFromURL_def getLocaleFromStorage_def
            first_supported_def offered_def storage_denied_def url_lang_supported_def
            split: option.splits)
  next
    case (Inr v)
    with Some assms show ?thesis
      by (cases v)
         (auto simp: determineLocale_def getLocaleFromURL_def getLocaleFromStorage_def
            getLocaleFromBrowser_def first_supported_def offered_def storage_denied_def
            url_lang_supported_def Let_def split: option.splits)
  qed
qed

text \<open>
  C9 (amended). Provided the default locale is itself in the supported list and the
  empty string is not: whenever \<open>determineLocale\<close> returns, it returns a member of the
  supported list, namely the first supported value in the order URL \<open>lang\<close> parameter,
  stored preference, browser language, falling back to the default locale; values that
  are not in the list are passed over. It returns in every case but one: when the browser
  denies access to \<open>localStorage\<close> and the URL carries no supported \<open>lang\<close>, the
  unguarded read of the stored preference throws a \<open>SecurityError\<close> and no locale is
  returned.
\<close>

theorem determineLocale_supported:
  assumes "default_locale lib \<in> set (locales lib)" and "[] \<notin> set (locales lib)"
  shows "(\<forall>l. determineLocale lib searchParams win = Inr l \<longrightarrow>
            l \<in> set (locales lib) \<and> l = first_supported lib (offered searchParams win))
         \<and> (\<not> storage_denied win \<or> url_lang_supported lib searchParams \<longrightarrow>
              determineLocale lib searchParams win
                = Inr (first_supported lib (offered searchParams win)))
         \<and> (storage_denied win \<and> \<not> url_lang_supported lib searchParams \<longrightarrow>
              determineLocale lib searchParams win = Inl SecurityError)"
proof -
  note c = determineLocale_cases[OF assms, of searchParams win]
  note m = first_supported_member[OF assms(1), of "offered searchParams win"]
  show ?thesis
  proof (cases "storage_denied win \<and> \<not> url_lang_supported lib searchParams")
    case True
    with c have "determineLocale lib searchParams win = Inl SecurityError" by simp
    with True show ?thesis by simp
  next
    case False
    with c have "determineLocale lib searchParams win
                   = Inr (first_supported lib (offered searchParams win))" by simp
    with False m show ?thesis by auto
  qed
qed

theorem determineLocale_supported_witness:
  "default_locale five_locales \<in> set (locales five_locales)
   \<and> [] \<notin> set (locales five_locales)
   \<and> \<not> storage_denied (Some open_window)
   \<and> determineLocale five_locales [(''lang'', ''xx'')] (Some open_window) = Inr ''fr''
   \<and> storage_denied (Some private_window)
   \<and> url_lang_supported five_locales [(''lang'', ''sl'')]
   \<and> determineLocale five_locales [(''lang'', ''sl'')] (Some private_window) = Inr ''sl''"
proof -
  have h: "default_locale five_locales \<in> set (locales five_locales)"
    "[] \<notin> set (locales five_locales)"
    by (simp_all add: five_locales_def)
  have a1: "\<not> storage_denied (Some open_window)"
    by (simp add: storage_denied_def open_window_def)
  have a2: "storage_denied (Some private_window)"
    by (simp add: storage_denied_def private_window_def)
  have a3: "url_lang_supported five_locales [(''lang'', ''sl'')]"
    by (simp add: url_lang_supported_def searchParams_get_def five_locales_def)
  have o1: "first_supported five_locales (offered [(''lang'', ''xx'')] (Some open_window)) = ''fr''"
    by code_simp
  have o2: "first_supported five_locales (offered [(''lang'', ''sl'')] (Some private_window)) = ''sl''"
    by code_simp
  note d1 = determineLocale_supported[OF h, of "[(''lang'', ''xx'')]" "Some open_window",
      THEN conjunct2, THEN conjunct1]
  with a1 have "determineLocale five_locales [(''lang'', ''xx'')] (Some open_window)
                  = Inr (first_supported five_locales (offered [(''lang'', ''xx'')] (Some open_window)))"
    by blast
  then have v1: "determineLocale five_locales [(''lang'', ''xx'')] (Some open_window) = Inr ''fr''"
    by (simp only: o1)
  note d2 = determineLocale_supported[OF h, of "[(''lang'', ''sl'')]" "Some private_window",
      THEN conjunct2, THEN conjunct1]
  with a3 have "determineLocale five_locales [(''lang'', ''sl'')] (Some private_window)
                  = Inr (first_supported five_locales (offered [(''lang'', ''sl'')] (Some private_window)))"
    by blast
  then have v2: "determineLocale five_locales [(''lang'', ''sl'')] (Some private_window) = Inr ''sl''"
    by (simp only: o2)
  from h a1 a2 a3 v1 v2 show ?thesis by blast
qed

text \<open>
  C9 as stated fails: in a browser that denies access to \<open>localStorage\<close>, with a URL
  whose \<open>lang\<close> is not supported (or absent), \<open>determineLocale\<close> throws and returns no
  locale, although the browser language and the default locale are supported.
\<close>

theorem determineLocale_supported_counterexample:
  "default_locale five_locales \<in> set (locales five_locales)
   \<and> [] \<notin> set (locales five_locales)
   \<and> determineLocale five_locales [(''lang'', ''xx'')] (Some private_window) = Inl SecurityError
   \<and> determineLocale five_locales [] (Some private_window) = Inl SecurityError
   \<and> primary_subtag (navigator_language private_window) \<in> set (locales five_locales)"
  by code_simp

section \<open>Properties of batch email sending\<close>

text \<open>
  C10. When test mode is in effect, \<open>POST /api/admin/emails/send\<close> answers with
  \<open>success: true\<close> and \<open>testMode: true\<close>, whatever generation id and user ids the
  request carries; no row is added to the email log, nothing is handed to SMTP and no
  table changes. The single trace it leaves is one line in the application log.
\<close>

theorem test_mode_sends_nothing:
  assumes "test_mode_in_effect e req"
  shows "fst (post_emails_send e req w)
           = Inr \<lparr>success = True, message = ''TEST_MODE enabled - no emails sent'',
                  testMode_reply = Some True, count = None\<rparr>
         \<and> email_logs (snd (post_emails_send e req w)) = email_logs w
         \<and> outbox (snd (post_emails_send e req w)) = outbox w
         \<and> snd (post_emails_send e req w)
             = w\<lparr>app_log := app_log w @ [''TEST_MODE is enabled - emails will NOT be sent'']\<rparr>"
  using assms
  by (auto simp: test_mode_in_effect_def post_emails_send_def logger_info_def Let_def)

lemma live_mode_sends:
  "outbox (snd (post_emails_send mail_env
       \<lparr>generationId = 7, userIds = None, testMode = Bool False\<rparr> mail_world0))
   = [\<lparr>mail_to = ''ana@example.org'', mail_subject = ''Your 2025 Unwrapped is here, {name}!'',
       mail_lang = ''en''\<rparr>]"
  by code_simp

theorem test_mode_sends_nothing_witness:
  "test_mode_in_effect mail_env \<lparr>generationId = 7, userIds = None, testMode = Undefined\<rparr>
   \<and> email_logs (snd (post_emails_send mail_env
          \<lparr>generationId = 7, userIds = None, testMode = Undefined\<rparr> mail_world0)) = []
   \<and> outbox (snd (post_emails_send mail_env
          \<lparr>generationId = 7, userIds = None, testMode = Undefined\<rparr> mail_world0)) = []
   \<and> outbox (snd (post_emails_send mail_env
          \<lparr>generationId = 7, userIds = None, testMode = Bool False\<rparr> mail_world0)) \<noteq> []"
proof -
  have h: "test_mode_in_effect mail_env \<lparr>generationId = 7, userIds = None, testMode = Undefined\<rparr>"
    by (simp add: test_mode_in_effect_def mail_env_def)
  have w: "email_logs mail_world0 = []" "outbox mail_world0 = []"
    by (simp_all add: mail_world0_def)
  from test_mode_sends_nothing[OF h, of mail_world0] h w live_mode_sends
  show ?thesis by simp
qed

section \<open>Properties of the fun facts\<close>

lemma fired_unfold:
  "fired t stats =
     fired_fact (rule_dayOfWeek t stats) @ fired_fact (rule_crushedEpisodes t stats)
     @ fired_fact (rule_originalQuality t stats) @ fired_fact (rule_preference t stats)
     @ fired_fact (rule_watchedPercentage t stats) @ fired_fact (rule_favoriteDevice t stats)"
  by (simp add: fired_def rule_table_def List.map_filter_simps fired_fact_def split: option.splits)

lemma step_dayOfWeek:
  "(case mostActiveDayOfWeek stats of
      None \<Rightarrow> xs
    | Some day \<Rightarrow> if day \<noteq> [] then xs @ [t ''funFacts.dayOfWeek'' [(''day'', Text day)]] else xs)
   = xs @ fired_fact (rule_dayOfWeek t stats)"
  by (simp add: rule_dayOfWeek_def fired_fact_def split: option.splits)

lemma step_crushedEpisodes:
  "(case topShows stats of
      [] \<Rightarrow> xs
    | s # rest \<Rightarrow>
        if episodes s > 20
        then xs @ [t ''funFacts.crushedEpisodes''
                     [(''count'', Number (episodes s)), (''title'', Text (show_title s))]]
        else xs)
   = xs @ fired_fact (rule_crushedEpisodes t stats)"
  by (simp add: rule_crushedEpisodes_def fired_fact_def split: list.splits)

lemma step_originalQuality:
  "(case qualityStats stats of
      None \<Rightarrow> xs
    | Some q \<Rightarrow>
        if directPlay q > transcode q
        then xs @ [t ''funFacts.originalQuality''
                     [(''percentage'', Rounded_percent (directPlay q) (totalPlays stats))]]
        else xs)
   = xs @ fired_fact (rule_originalQuality t stats)"
  by (simp add: rule_originalQuality_def fired_fact_def split: option.splits)

lemma step_preference:
  "xs @ [t ''funFacts.preference''
          [(''type'', Text (if totalMovies stats > totalTvEpisodes stats
                            then t ''contentTypes.movies'' []
                            else t ''contentTypes.tvShows'' []))]]
   = xs @ fired_fact (rule_preference t stats)"
  by (simp add: rule_preference_def fired_fact_def)

lemma step_watchedPercentage:
  "(if daysActive stats < 200
    then xs @ [t ''funFacts.watchedPercentage''
                 [(''percentage'', Rounded_percent (daysActive stats) 365)]]
    else xs)
   = xs @ fired_fact (rule_watchedPercentage t stats)"
  by (simp add: rule_watchedPercentage_def fired_fact_def)

lemma step_favoriteDevice:
  "(case topDevices stats of
      [] \<Rightarrow> xs
    | d # rest \<Rightarrow> xs @ [t ''funFacts.favoriteDevice'' [(''device'', Text (device d))]])
   = xs @ fired_fact (rule_favoriteDevice t stats)"
  by (simp add: rule_favoriteDevice_def fired_fact_def split: list.splits)

lemma step_original:
  "(case funFacts stats of None \<Rightarrow> [] | Some fs \<Rightarrow> [] @ fs) = original_facts stats"
  by (simp add: original_facts_def split: option.splits)

text \<open>
  C5. For every stats object and translator, the page shows at most six fun facts, and
  they are the first six of: the facts delivered with the stats, followed by the facts of
  the rules that fire, in the order of the rule table, rules that do not fire
  contributing nothing. The list is a function of the stats and the translator alone:
  the block reads no clock and no random source.
\<close>

theorem generatedFacts_bounded_ordered:
  "length (generatedFacts t stats) \<le> 6
   \<and> generatedFacts t stats = take 6 (original_facts stats @ fired t stats)"
proof -
  have "generatedFacts t stats = take 6 (original_facts stats @ fired t stats)"
    unfolding generatedFacts_def Let_def step_original step_dayOfWeek step_crushedEpisodes
      step_originalQuality step_preference step_watchedPercentage step_favoriteDevice fired_unfold
    by (simp only: append_assoc)
  then show ?thesis by simp
qed

text \<open>
  On the stats of a user-year without a single play the block shows two facts: the rule
  for the content preference has no condition and names TV shows when there are no more
  movies than episodes, and the rule for the share of days watched fires below 200 active
  days.
\<close>

lemma page_facts_without_plays:
  "generatedFacts t all_zero_stats =
     [t ''funFacts.preference'' [(''type'', Text (t ''contentTypes.tvShows'' []))],
      t ''funFacts.watchedPercentage'' [(''percentage'', Rounded_percent 0 365)]]"
  by (simp add: generatedFacts_def all_zero_stats_def Let_def)

section \<open>Properties of the aggregation engine\<close>

subsection \<open>The engine on examples of the specification (section 8)\<close>

lemma streak_example:
  "longest_streak_days (computeUserYearStats default_config 2025 None
     [movie_on 1 1, movie_on 2 2, movie_on 3 3, movie_on 4 10, movie_on 5 11, movie_on 6 12,
      movie_on 7 13, movie_on 8 14, movie_on 9 15]) = 6"
  by code_simp

lemma out_of_year_example:
  "total_plays (computeUserYearStats default_config 2025 None [movie_on 1 0, movie_on 2 1]) = 1"
  by code_simp

lemma duplicate_example:
  "computeUserYearStats default_config 2025 None [movie_on 1 5, movie_on 1 5]
   = computeUserYearStats default_config 2025 None [movie_on 1 5]"
  by code_simp

lemma tie_break_example:
  "map group_key (top_movies (computeUserYearStats default_config 2025 None
     [movie_on 1 5, movie_on 2 4])) = [2, 1]"
  by code_simp

subsection \<open>Empty history\<close>

lemma normalize_Nil: "normalize_events target [] = []"
  by (simp add: normalize_events_def well_formed_def map_filter_simps)

lemma assemble_Nil:
  "assemble cfg target supp 0 [] =
     empty_year_stats\<lparr>percentage_of_library_watched := library_percentage_watched 0 supp\<rparr>"
  by (simp add: assemble_def empty_year_stats_def longest_binge_def calendar_buckets_def
      minutes_of_def movies_of_def episodes_of_def show_groups_def first_occurrences_def
      active_days_def longest_streak_def ranking_def quality_of_def decision_events_def
      round_percent_def rewatch_count_def first_watch_def last_watch_def Let_def)

lemma no_rule_fires:
  "fired_rules (empty_year_stats\<lparr>percentage_of_library_watched := p\<rparr>) = []"
  by (simp add: fired_rules_def engine_rules_def favourite_day_rule_def episodes_rule_def
      direct_play_rule_def empty_year_stats_def List.map_filter_simps)

lemma compute_Nil:
  "computeUserYearStats cfg target supp [] =
     empty_year_stats\<lparr>percentage_of_library_watched := library_percentage_watched 0 supp\<rparr>"
  by (simp add: computeUserYearStats_def normalize_Nil skipped_malformed_def assemble_Nil
      with_facts_def no_rule_fires) (simp add: empty_year_stats_def)

lemma valid_empty:
  "valid_stats cfg (empty_year_stats\<lparr>percentage_of_library_watched := library_percentage_watched 0 supp\<rparr>)"
  by (simp add: valid_stats_def empty_year_stats_def library_percentage_watched_def
      split: option.splits)

text \<open>
  C6. For the empty history the engine returns its result, which has no error form: the
  valid all-zero statistics. Every counter is zero, every ranking is empty, every
  temporal field is absent, the library percentage is the sentinel (or 0 when a library
  size is supplied), and no rule of the fun-fact table fires, so there is neither a fun
  fact nor a badge.
\<close>

theorem empty_history:
  "computeUserYearStats cfg target supp [] =
     empty_year_stats\<lparr>percentage_of_library_watched := library_percentage_watched 0 supp\<rparr>
   \<and> valid_stats cfg (computeUserYearStats cfg target supp [])
   \<and> fired_rules (computeUserYearStats cfg target supp []) = []
   \<and> fun_facts (computeUserYearStats cfg target supp []) = []
   \<and> badges (computeUserYearStats cfg target supp []) = []"
  by (simp add: compute_Nil valid_empty no_rule_fires)
     (simp add: empty_year_stats_def)

theorem empty_history_witness:
  "total_plays (computeUserYearStats default_config 2025 None []) = 0
   \<and> total_watch_time_minutes (computeUserYearStats default_config 2025 None []) = 0
   \<and> top_movies (computeUserYearStats default_config 2025 None []) = []
   \<and> first_watch_date (computeUserYearStats default_config 2025 None []) = None
   \<and> percentage_of_library_watched (computeUserYearStats default_config 2025 None [])
       = Unavailable
   \<and> fun_facts (computeUserYearStats default_config 2025 None []) = []"
  using empty_history[of default_config 2025 None]
  by (simp add: empty_year_stats_def library_percentage_watched_def library_size_def)

subsection \<open>Order independence\<close>

lemma mset_well_formed:
  "mset records' = mset records \<Longrightarrow> mset (well_formed records') = mset (well_formed records)"
  by (simp add: well_formed_def map_filter_def)

lemma skipped_malformed_perm:
  "mset records' = mset records \<Longrightarrow> skipped_malformed records' = skipped_malformed records"
  by (metis skipped_malformed_def mset_filter size_mset)

lemma kind_code_inj: "kind_code a = kind_code b \<Longrightarrow> a = b"
  by (cases a; cases b) simp_all

lemma decision_code_inj: "decision_code a = decision_code b \<Longrightarrow> a = b"
  by (cases a; cases b) simp_all

lemma event_order_inj: "event_order a = event_order b \<Longrightarrow> a = b"
  by (cases a; cases b) (auto simp: event_order_def dest: kind_code_inj decision_code_inj)

lemma sort_key_of_mset:
  fixes f :: "'a \<Rightarrow> 'k::linorder"
  assumes inj: "\<And>a b. f a = f b \<Longrightarrow> a = b" and perm: "mset ys = mset xs"
  shows "sort_key f ys = sort_key f xs"
proof (rule properties_for_sort_key)
  show "mset (sort_key f xs) = mset ys" using perm by simp
  show "sorted (map f (sort_key f xs))" by (rule sorted_sort_key)
  fix k
  have same: "(\<lambda>x. f k = f x) = HOL.eq k" using inj by (auto simp: fun_eq_iff)
  have "filter (HOL.eq k) (sort_key f xs) = replicate (Multiset.count (mset (sort_key f xs)) k) k"
    by (rule replicate_count_mset_eq_filter_eq[symmetric])
  also have "\<dots> = replicate (Multiset.count (mset ys) k) k" using perm by simp
  also have "\<dots> = filter (HOL.eq k) ys" by (rule replicate_count_mset_eq_filter_eq)
  finally show "filter (\<lambda>x. f k = f x) (sort_key f xs) = filter (\<lambda>x. f k = f x) ys"
    by (simp only: same)
qed

lemma normalize_perm:
  assumes "mset records' = mset records"
  shows "normalize_events target records' = normalize_events target records"
proof -
  have m: "mset (filter (qualifies target) (well_formed records'))
          = mset (filter (qualifies target) (well_formed records))"
    using mset_well_formed[OF assms] by (metis mset_filter)
  have "sort_key event_order (filter (qualifies target) (well_formed records'))
               = sort_key event_order (filter (qualifies target) (well_formed records))"
    by (rule sort_key_of_mset[OF _ m]) (rule event_order_inj)
  then show ?thesis by (simp only: normalize_events_def)
qed

lemma conflicting_duplicates_example:
  "normalize_events 2025 [Event conflicting_movie, Event sample_movie] = [sample_movie]
   \<and> normalize_events 2025 [Event sample_movie, Event conflicting_movie] = [sample_movie]"
  by code_simp

text \<open>
  C7. For every history and every permutation of it, the engine returns the same
  result, whatever the configuration, the target year and the supplementary input; the
  history may hold malformed records, duplicates and records that share a rating key and
  a start time but differ elsewhere.
\<close>

theorem order_independent:
  assumes "mset records' = mset records"
  shows "computeUserYearStats cfg target supp records' = computeUserYearStats cfg target supp records"
  using normalize_perm[OF assms] skipped_malformed_perm[OF assms]
  by (simp add: computeUserYearStats_def)

theorem order_independent_witness:
  "mset [Event sample_movie, Event sample_episode, Malformed, Event conflicting_movie]
     = mset [Event conflicting_movie, Malformed, Event sample_episode, Event sample_movie]
   \<and> computeUserYearStats default_config 2025 (Some some_library)
         [Event sample_movie, Event sample_episode, Malformed, Event conflicting_movie]
       = computeUserYearStats default_config 2025 (Some some_library)
           [Event conflicting_movie, Malformed, Event sample_episode, Event sample_movie]
   \<and> total_plays (computeUserYearStats default_config 2025 (Some some_library)
         [Event conflicting_movie, Malformed, Event sample_episode, Event sample_movie]) = 2"
proof -
  have p: "mset [Event sample_movie, Event sample_episode, Malformed, Event conflicting_movie]
     = mset [Event conflicting_movie, Malformed, Event sample_episode, Event sample_movie]"
    by (simp add: add.commute add.left_commute)
  have n: "total_plays (computeUserYearStats default_config 2025 (Some some_library)
         [Event conflicting_movie, Malformed, Event sample_episode, Event sample_movie]) = 2"
    by code_simp
  from order_independent[OF p] p n show ?thesis by blast
qed

subsection \<open>Library percentage\<close>

lemma library_field_assemble:
  "percentage_of_library_watched (assemble cfg target supp k es)
     = library_percentage_watched
         (length (remdups (map ratingKey (movies_of es))) + length (show_groups es)) supp"
  unfolding assemble_def Let_def by (simp only: user_year_stats.simps)

lemma library_field:
  "percentage_of_library_watched (computeUserYearStats cfg target supp records)
     = library_percentage_watched
         (length (remdups (map ratingKey (movies_of (normalize_events target records))))
          + length (show_groups (normalize_events target records))) supp"
  unfolding computeUserYearStats_def with_facts_def
  by (simp add: library_field_assemble)

text \<open>
  C2. For every history, year and configuration, when the supplementary input supplies
  no library size the engine's library percentage is the sentinel \<open>Unavailable\<close>; it is
  stored as \<open>NULL\<close>, which the column's check admits and which is not the number zero,
  and it is reported as \<open>null\<close>, which is not the text of a zero percentage.
\<close>

theorem library_percentage_sentinel:
  assumes "library_size supp = None"
  shows "percentage_of_library_watched (computeUserYearStats cfg target supp records) = Unavailable
         \<and> persisted_percentage (computeUserYearStats cfg target supp records) = Inr None
         \<and> persisted_percentage (computeUserYearStats cfg target supp records) \<noteq> Inr (Some 0)
         \<and> reported_percentage None \<noteq> reported_percentage (Some 0)"
  using assms
  by (simp add: library_field library_percentage_watched_def persisted_percentage_def
      percentage_column_def store_percentage_def reported_percentage_def)

lemma zero_percent_stored:
  "persisted_percentage (computeUserYearStats default_config 2025 (Some some_library) []) = Inr (Some 0)"
  by (simp add: compute_Nil persisted_percentage_def percentage_column_def store_percentage_def
      library_percentage_watched_def library_size_def some_library_def)

theorem library_percentage_sentinel_witness:
  "library_size None = None
   \<and> percentage_of_library_watched
         (computeUserYearStats default_config 2025 None [Event sample_movie]) = Unavailable
   \<and> persisted_percentage (computeUserYearStats default_config 2025 None [Event sample_movie])
       = Inr None
   \<and> persisted_percentage (computeUserYearStats default_config 2025 (Some some_library) [])
       = Inr (Some 0)"
proof -
  have h: "library_size None = None"
    by (simp add: library_size_def)
  from library_percentage_sentinel[OF h, of default_config 2025 "[Event sample_movie]"] h
       zero_percent_stored
  show ?thesis by blast
qed

end
